theory Spec2Isabelle
  imports Complex_Main
begin

section \<open>Strings, exceptions and vectors\<close>

text \<open>
  The program is the classification engine of \<^verbatim>\<open>task2/models.py\<close> together with
  the department list of \<^verbatim>\<open>task03/main.py\<close>. A Python \<^verbatim>\<open>str\<close> is a sequence of
  Unicode code points; the department names and descriptions are Russian text, so a
  string is modelled as the list of its code points (\<open>1044\<close> is CYRILLIC CAPITAL
  LETTER DE, \<open>32\<close> the space, \<open>10\<close> the line feed). ASCII literals are written with
  \<open>ascii\<close>.
\<close>

type_synonym pystr = "nat list"

definition ascii :: "string \<Rightarrow> pystr" where
  "ascii s = map of_char s"

text \<open>
  An exception value is its class and the text \<^verbatim>\<open>str(e)\<close> gives for it. The class
  \<open>RequestException\<close> stands for \<^verbatim>\<open>requests.exceptions.RequestException\<close> and its
  subclasses (connection errors, timeouts, \<^verbatim>\<open>HTTPError\<close>), which one
  \<^verbatim>\<open>except\<close> clause of the source catches together.
\<close>

datatype exn_class =
  RequestException | KeyError | IndexError | TypeError | AttributeError | ValueError
  | OtherException

datatype py_exn = Exn exn_class pystr

fun str :: "py_exn \<Rightarrow> pystr" where
  "str (Exn c msg) = msg"

fun exn_class_of :: "py_exn \<Rightarrow> exn_class" where
  "exn_class_of (Exn c msg) = c"

text \<open>
  What a call of the engine raises: FastAPI's \<^verbatim>\<open>HTTPException(status_code, detail)\<close>,
  or an exception that no handler of the source catches.
\<close>

datatype raised = HTTPException nat pystr | Uncaught py_exn

type_synonym vec = "real list"

text \<open>
  The two external collaborators of the embedding classifier are parameters of the model:
  the pretrained encoder behind \<^verbatim>\<open>get_embedding\<close> (tokenizer, model and mean pooling
  of \<^verbatim>\<open>transformers\<close>/\<^verbatim>\<open>torch\<close>) and \<^verbatim>\<open>sklearn\<close>'s \<^verbatim>\<open>cosine_similarity\<close>. Either may raise.
  Scores are real numbers: the finite floating-point values the libraries return, compared
  by their value.
\<close>

type_synonym embedder = "pystr \<Rightarrow> py_exn + vec"
type_synonym scorer = "vec \<Rightarrow> vec \<Rightarrow> py_exn + real"

section \<open>The department catalog of \<^verbatim>\<open>HuggingFaceClassifier.classify\<close>\<close>

text \<open>
  The six keys of \<^verbatim>\<open>department_descriptions\<close>, in the order the dictionary literal lists
  them: Departament transporta, Departament kul'tury, Departament zdravookhraneniya,
  Departament obrazovaniya, Departament ekologii, Departament fizicheskoi kul'tury i
  sporta.
\<close>

definition dept_transport :: pystr where
  "dept_transport =
     [1044, 1077, 1087, 1072, 1088, 1090, 1072, 1084, 1077, 1085, 1090, 32, 1090, 1088, 1072,
      1085, 1089, 1087, 1086, 1088, 1090, 1072]"

definition dept_culture :: pystr where
  "dept_culture =
     [1044, 1077, 1087, 1072, 1088, 1090, 1072, 1084, 1077, 1085, 1090, 32, 1082, 1091, 1083,
      1100, 1090, 1091, 1088, 1099]"

definition dept_health :: pystr where
  "dept_health =
     [1044, 1077, 1087, 1072, 1088, 1090, 1072, 1084, 1077, 1085, 1090, 32, 1079, 1076, 1088,
      1072, 1074, 1086, 1086, 1093, 1088, 1072, 1085, 1077, 1085, 1080, 1103]"

definition dept_education :: pystr where
  "dept_education =
     [1044, 1077, 1087, 1072, 1088, 1090, 1072, 1084, 1077, 1085, 1090, 32, 1086, 1073, 1088,
      1072, 1079, 1086, 1074, 1072, 1085, 1080, 1103]"

definition dept_ecology :: pystr where
  "dept_ecology =
     [1044, 1077, 1087, 1072, 1088, 1090, 1072, 1084, 1077, 1085, 1090, 32, 1101, 1082, 1086,
      1083, 1086, 1075, 1080, 1080]"

definition dept_sport :: pystr where
  "dept_sport =
     [1044, 1077, 1087, 1072, 1088, 1090, 1072, 1084, 1077, 1085, 1090, 32, 1092, 1080, 1079,
      1080, 1095, 1077, 1089, 1082, 1086, 1081, 32, 1082, 1091, 1083, 1100, 1090, 1091, 1088,
      1099, 32, 1080, 32, 1089, 1087, 1086, 1088, 1090, 1072]"

text \<open>
  The six values of the dictionary: each is the triple-quoted text of the source with its
  line breaks and its indentation of sixteen spaces. Every one starts with a line feed,
  the indentation and the words Otvechaet za (is responsible for), and lists what the
  department is responsible for.
\<close>

definition desc_transport :: pystr where
  "desc_transport =
     [10, 32, 32, 32, 32, 32, 32, 32, 32, 32, 32, 32, 32, 32, 32, 32, 32, 1054, 1090, 1074, 1077,
      1095, 1072, 1077, 1090, 32, 1079, 1072, 32, 1090, 1088, 1072, 1085, 1089, 1087, 1086, 1088,
      1090, 1085, 1091, 1102, 32, 1080, 1085, 1092, 1088, 1072, 1089, 1090, 1088, 1091, 1082,
      1090, 1091, 1088, 1091, 44, 32, 1076, 1086, 1088, 1086, 1075, 1080, 44, 32, 1086, 1073,
      1097, 1077, 1089, 1090, 1074, 1077, 1085, 1085, 1099, 1081, 32, 1090, 1088, 1072, 1085,
      1089, 1087, 1086, 1088, 1090, 44, 32, 10, 32, 32, 32, 32, 32, 32, 32, 32, 32, 32, 32, 32,
      32, 32, 32, 32, 1087, 1072, 1088, 1082, 1086, 1074, 1082, 1080, 44, 32, 1089, 1074, 1077,
      1090, 1086, 1092, 1086, 1088, 1099, 44, 32, 1076, 1086, 1088, 1086, 1078, 1085, 1099, 1077,
      32, 1079, 1085, 1072, 1082, 1080, 44, 32, 1088, 1077, 1084, 1086, 1085, 1090, 32, 1076,
      1086, 1088, 1086, 1075, 44, 32, 1090, 1088, 1072, 1085, 1089, 1087, 1086, 1088, 1090, 1085,
      1099, 1077, 32, 1088, 1072, 1079, 1074, 1103, 1079, 1082, 1080, 44, 32, 10, 32, 32, 32, 32,
      32, 32, 32, 32, 32, 32, 32, 32, 32, 32, 32, 32, 1084, 1086, 1089, 1090, 1099, 44, 32, 1090,
      1091, 1085, 1085, 1077, 1083, 1080, 44, 32, 1074, 1077, 1083, 1086, 1076, 1086, 1088, 1086,
      1078, 1082, 1080, 44, 32, 1086, 1089, 1090, 1072, 1085, 1086, 1074, 1082, 1080, 44, 32,
      1072, 1074, 1090, 1086, 1073, 1091, 1089, 1099, 44, 32, 1090, 1088, 1072, 1084, 1074, 1072,
      1080, 44, 32, 1084, 1077, 1090, 1088, 1086, 44, 32, 1090, 1072, 1082, 1089, 1080, 46, 10,
      32, 32, 32, 32, 32, 32, 32, 32, 32, 32, 32, 32]"

definition desc_culture :: pystr where
  "desc_culture =
     [10, 32, 32, 32, 32, 32, 32, 32, 32, 32, 32, 32, 32, 32, 32, 32, 32, 1054, 1090, 1074, 1077,
      1095, 1072, 1077, 1090, 32, 1079, 1072, 32, 1084, 1091, 1079, 1077, 1080, 44, 32, 1090,
      1077, 1072, 1090, 1088, 1099, 44, 32, 1073, 1080, 1073, 1083, 1080, 1086, 1090, 1077, 1082,
      1080, 44, 32, 1082, 1091, 1083, 1100, 1090, 1091, 1088, 1085, 1099, 1077, 32, 1094, 1077,
      1085, 1090, 1088, 1099, 44, 32, 1074, 1099, 1089, 1090, 1072, 1074, 1082, 1080, 44, 32, 10,
      32, 32, 32, 32, 32, 32, 32, 32, 32, 32, 32, 32, 32, 32, 32, 32, 1082, 1086, 1085, 1094,
      1077, 1088, 1090, 1099, 44, 32, 1092, 1077, 1089, 1090, 1080, 1074, 1072, 1083, 1080, 44,
      32, 1087, 1072, 1088, 1082, 1080, 32, 1082, 1091, 1083, 1100, 1090, 1091, 1088, 1099, 44,
      32, 1093, 1091, 1076, 1086, 1078, 1077, 1089, 1090, 1074, 1077, 1085, 1085, 1099, 1077, 32,
      1089, 1090, 1091, 1076, 1080, 1080, 44, 32, 1090, 1074, 1086, 1088, 1095, 1077, 1089, 1082,
      1080, 1077, 32, 10, 32, 32, 32, 32, 32, 32, 32, 32, 32, 32, 32, 32, 32, 32, 32, 32, 1082,
      1088, 1091, 1078, 1082, 1080, 44, 32, 1082, 1091, 1083, 1100, 1090, 1091, 1088, 1085, 1099,
      1077, 32, 1084, 1077, 1088, 1086, 1087, 1088, 1080, 1103, 1090, 1080, 1103, 44, 32, 1087,
      1072, 1084, 1103, 1090, 1085, 1080, 1082, 1080, 44, 32, 1080, 1089, 1090, 1086, 1088, 1080,
      1095, 1077, 1089, 1082, 1080, 1077, 32, 1079, 1076, 1072, 1085, 1080, 1103, 44, 32, 10, 32,
      32, 32, 32, 32, 32, 32, 32, 32, 32, 32, 32, 32, 32, 32, 32, 1082, 1091, 1083, 1100, 1090,
      1091, 1088, 1085, 1086, 1077, 32, 1085, 1072, 1089, 1083, 1077, 1076, 1080, 1077, 44, 32,
      1080, 1089, 1082, 1091, 1089, 1089, 1090, 1074, 1086, 44, 32, 1084, 1091, 1079, 1099, 1082,
      1091, 44, 32, 1083, 1080, 1090, 1077, 1088, 1072, 1090, 1091, 1088, 1091, 46, 10, 32, 32,
      32, 32, 32, 32, 32, 32, 32, 32, 32, 32]"

definition desc_health :: pystr where
  "desc_health =
     [10, 32, 32, 32, 32, 32, 32, 32, 32, 32, 32, 32, 32, 32, 32, 32, 32, 1054, 1090, 1074, 1077,
      1095, 1072, 1077, 1090, 32, 1079, 1072, 32, 1073, 1086, 1083, 1100, 1085, 1080, 1094, 1099,
      44, 32, 1087, 1086, 1083, 1080, 1082, 1083, 1080, 1085, 1080, 1082, 1080, 44, 32, 1084,
      1077, 1076, 1080, 1094, 1080, 1085, 1089, 1082, 1080, 1077, 32, 1094, 1077, 1085, 1090,
      1088, 1099, 44, 32, 1072, 1087, 1090, 1077, 1082, 1080, 44, 32, 10, 32, 32, 32, 32, 32, 32,
      32, 32, 32, 32, 32, 32, 32, 32, 32, 32, 1084, 1077, 1076, 1080, 1094, 1080, 1085, 1089,
      1082, 1086, 1077, 32, 1086, 1073, 1089, 1083, 1091, 1078, 1080, 1074, 1072, 1085, 1080,
      1077, 44, 32, 1079, 1076, 1086, 1088, 1086, 1074, 1100, 1077, 32, 1085, 1072, 1089, 1077,
      1083, 1077, 1085, 1080, 1103, 44, 32, 1087, 1088, 1086, 1092, 1080, 1083, 1072, 1082, 1090,
      1080, 1082, 1091, 32, 1079, 1072, 1073, 1086, 1083, 1077, 1074, 1072, 1085, 1080, 1081, 44,
      32, 10, 32, 32, 32, 32, 32, 32, 32, 32, 32, 32, 32, 32, 32, 32, 32, 32, 1084, 1077, 1076,
      1080, 1094, 1080, 1085, 1089, 1082, 1080, 1077, 32, 1091, 1089, 1083, 1091, 1075, 1080, 44,
      32, 1074, 1088, 1072, 1095, 1077, 1081, 44, 32, 1084, 1077, 1076, 1089, 1077, 1089, 1090,
      1077, 1088, 44, 32, 1084, 1077, 1076, 1080, 1094, 1080, 1085, 1089, 1082, 1086, 1077, 32,
      1086, 1073, 1086, 1088, 1091, 1076, 1086, 1074, 1072, 1085, 1080, 1077, 44, 32, 10, 32, 32,
      32, 32, 32, 32, 32, 32, 32, 32, 32, 32, 32, 32, 32, 32, 1074, 1072, 1082, 1094, 1080, 1085,
      1072, 1094, 1080, 1102, 44, 32, 1076, 1080, 1089, 1087, 1072, 1085, 1089, 1077, 1088, 1080,
      1079, 1072, 1094, 1080, 1102, 46, 10, 32, 32, 32, 32, 32, 32, 32, 32, 32, 32, 32, 32]"

definition desc_education :: pystr where
  "desc_education =
     [10, 32, 32, 32, 32, 32, 32, 32, 32, 32, 32, 32, 32, 32, 32, 32, 32, 1054, 1090, 1074, 1077,
      1095, 1072, 1077, 1090, 32, 1079, 1072, 32, 1096, 1082, 1086, 1083, 1099, 44, 32, 1076,
      1077, 1090, 1089, 1082, 1080, 1077, 32, 1089, 1072, 1076, 1099, 44, 32, 1091, 1085, 1080,
      1074, 1077, 1088, 1089, 1080, 1090, 1077, 1090, 1099, 44, 32, 1082, 1086, 1083, 1083, 1077,
      1076, 1078, 1080, 44, 32, 1086, 1073, 1088, 1072, 1079, 1086, 1074, 1072, 1090, 1077, 1083,
      1100, 1085, 1099, 1077, 32, 10, 32, 32, 32, 32, 32, 32, 32, 32, 32, 32, 32, 32, 32, 32, 32,
      32, 1087, 1088, 1086, 1075, 1088, 1072, 1084, 1084, 1099, 44, 32, 1091, 1095, 1077, 1073,
      1085, 1099, 1077, 32, 1079, 1072, 1074, 1077, 1076, 1077, 1085, 1080, 1103, 44, 32, 1086,
      1073, 1088, 1072, 1079, 1086, 1074, 1072, 1085, 1080, 1077, 32, 1076, 1077, 1090, 1077,
      1081, 32, 1080, 32, 1074, 1079, 1088, 1086, 1089, 1083, 1099, 1093, 44, 32, 1082, 1091,
      1088, 1089, 1099, 44, 32, 10, 32, 32, 32, 32, 32, 32, 32, 32, 32, 32, 32, 32, 32, 32, 32,
      32, 1086, 1073, 1091, 1095, 1077, 1085, 1080, 1077, 44, 32, 1087, 1088, 1077, 1087, 1086,
      1076, 1072, 1074, 1072, 1090, 1077, 1083, 1077, 1081, 44, 32, 1091, 1095, 1077, 1073, 1085,
      1099, 1077, 32, 1084, 1072, 1090, 1077, 1088, 1080, 1072, 1083, 1099, 44, 32, 1086, 1073,
      1088, 1072, 1079, 1086, 1074, 1072, 1090, 1077, 1083, 1100, 1085, 1099, 1077, 32, 1089,
      1090, 1072, 1085, 1076, 1072, 1088, 1090, 1099, 46, 10, 32, 32, 32, 32, 32, 32, 32, 32, 32,
      32, 32, 32]"

definition desc_ecology :: pystr where
  "desc_ecology =
     [10, 32, 32, 32, 32, 32, 32, 32, 32, 32, 32, 32, 32, 32, 32, 32, 32, 1054, 1090, 1074, 1077,
      1095, 1072, 1077, 1090, 32, 1079, 1072, 32, 1086, 1093, 1088, 1072, 1085, 1091, 32, 1086,
      1082, 1088, 1091, 1078, 1072, 1102, 1097, 1077, 1081, 32, 1089, 1088, 1077, 1076, 1099, 44,
      32, 1091, 1073, 1086, 1088, 1082, 1091, 32, 1084, 1091, 1089, 1086, 1088, 1072, 44, 32,
      1086, 1079, 1077, 1083, 1077, 1085, 1077, 1085, 1080, 1077, 44, 32, 10, 32, 32, 32, 32, 32,
      32, 32, 32, 32, 32, 32, 32, 32, 32, 32, 32, 1101, 1082, 1086, 1083, 1086, 1075, 1080, 1095,
      1077, 1089, 1082, 1080, 1077, 32, 1087, 1088, 1086, 1075, 1088, 1072, 1084, 1084, 1099, 44,
      32, 1095, 1080, 1089, 1090, 1086, 1090, 1091, 32, 1075, 1086, 1088, 1086, 1076, 1072, 44,
      32, 1087, 1077, 1088, 1077, 1088, 1072, 1073, 1086, 1090, 1082, 1091, 32, 1086, 1090, 1093,
      1086, 1076, 1086, 1074, 44, 32, 10, 32, 32, 32, 32, 32, 32, 32, 32, 32, 32, 32, 32, 32, 32,
      32, 32, 1101, 1082, 1086, 1083, 1086, 1075, 1080, 1095, 1077, 1089, 1082, 1086, 1077, 32,
      1086, 1073, 1088, 1072, 1079, 1086, 1074, 1072, 1085, 1080, 1077, 44, 32, 1079, 1072, 1097,
      1080, 1090, 1091, 32, 1087, 1088, 1080, 1088, 1086, 1076, 1099, 44, 32, 1101, 1082, 1086,
      1083, 1086, 1075, 1080, 1095, 1077, 1089, 1082, 1080, 1077, 32, 1085, 1086, 1088, 1084,
      1099, 44, 32, 10, 32, 32, 32, 32, 32, 32, 32, 32, 32, 32, 32, 32, 32, 32, 32, 32, 1084,
      1086, 1085, 1080, 1090, 1086, 1088, 1080, 1085, 1075, 32, 1086, 1082, 1088, 1091, 1078,
      1072, 1102, 1097, 1077, 1081, 32, 1089, 1088, 1077, 1076, 1099, 46, 10, 32, 32, 32, 32, 32,
      32, 32, 32, 32, 32, 32, 32]"

definition desc_sport :: pystr where
  "desc_sport =
     [10, 32, 32, 32, 32, 32, 32, 32, 32, 32, 32, 32, 32, 32, 32, 32, 32, 1054, 1090, 1074, 1077,
      1095, 1072, 1077, 1090, 32, 1079, 1072, 32, 1089, 1087, 1086, 1088, 1090, 1080, 1074, 1085,
      1099, 1077, 32, 1086, 1073, 1098, 1077, 1082, 1090, 1099, 44, 32, 1089, 1090, 1072, 1076,
      1080, 1086, 1085, 1099, 44, 32, 1089, 1087, 1086, 1088, 1090, 1080, 1074, 1085, 1099, 1077,
      32, 1087, 1083, 1086, 1097, 1072, 1076, 1082, 1080, 44, 32, 10, 32, 32, 32, 32, 32, 32, 32,
      32, 32, 32, 32, 32, 32, 32, 32, 32, 1073, 1072, 1089, 1089, 1077, 1081, 1085, 1099, 44, 32,
      1089, 1087, 1086, 1088, 1090, 1080, 1074, 1085, 1099, 1077, 32, 1089, 1077, 1082, 1094,
      1080, 1080, 44, 32, 1092, 1080, 1079, 1082, 1091, 1083, 1100, 1090, 1091, 1088, 1091, 44,
      32, 1089, 1087, 1086, 1088, 1090, 1080, 1074, 1085, 1099, 1077, 32, 1084, 1077, 1088, 1086,
      1087, 1088, 1080, 1103, 1090, 1080, 1103, 44, 32, 10, 32, 32, 32, 32, 32, 32, 32, 32, 32,
      32, 32, 32, 32, 32, 32, 32, 1089, 1086, 1088, 1077, 1074, 1085, 1086, 1074, 1072, 1085,
      1080, 1103, 44, 32, 1090, 1088, 1077, 1085, 1080, 1088, 1086, 1074, 1082, 1080, 44, 32,
      1088, 1072, 1079, 1074, 1080, 1090, 1080, 1077, 32, 1089, 1087, 1086, 1088, 1090, 1072, 44,
      32, 1089, 1087, 1086, 1088, 1090, 1080, 1074, 1085, 1099, 1077, 32, 1087, 1088, 1086, 1075,
      1088, 1072, 1084, 1084, 1099, 46, 10, 32, 32, 32, 32, 32, 32, 32, 32, 32, 32, 32, 32]"

text \<open>
  The constant part of the detail of the exception \<^verbatim>\<open>classify\<close> raises: Oshibka pri
  klassifikatsii obrashcheniya (error while classifying the appeal), a colon and a space.
\<close>

definition classify_error_prefix :: pystr where
  "classify_error_prefix =
     [1054, 1096, 1080, 1073, 1082, 1072, 32, 1087, 1088, 1080, 32, 1082, 1083, 1072, 1089, 1089,
      1080, 1092, 1080, 1082, 1072, 1094, 1080, 1080, 32, 1086, 1073, 1088, 1072, 1097, 1077,
      1085, 1080, 1103, 58, 32]"

text \<open>
  A Python dictionary iterates in insertion order, so the dictionary literal is the
  association list of its items; its keys are pairwise distinct.
\<close>

definition department_descriptions :: "(pystr \<times> pystr) list" where
  "department_descriptions =
     [(dept_transport, desc_transport),
      (dept_culture, desc_culture),
      (dept_health, desc_health),
      (dept_education, desc_education),
      (dept_ecology, desc_ecology),
      (dept_sport, desc_sport)]"

text \<open>The list \<^verbatim>\<open>DEPARTMENTS\<close> of \<^verbatim>\<open>task03/main.py\<close>, passed to every call there.\<close>

definition DEPARTMENTS :: "pystr list" where
  "DEPARTMENTS =
     [dept_transport, dept_culture, dept_health, dept_education, dept_ecology, dept_sport]"

section \<open>The embedding classifier\<close>

text \<open>
  \<^verbatim>\<open>get_embedding\<close> calls the encoder. The state threaded through the classifier is the
  list of the texts the encoder has been called with, which is what a call counter of a
  test double observes.
\<close>

definition get_embedding :: "embedder \<Rightarrow> pystr \<Rightarrow> pystr list \<Rightarrow> (py_exn + vec) \<times> pystr list" where
  "get_embedding encoder text calls = (encoder text, calls @ [text])"

text \<open>
  The comprehension \<^verbatim>\<open>{dept: self.get_embedding(desc) for dept, desc in ...items()}\<close>:
  one encoder call per item, in order; the first exception ends it.
\<close>

fun department_embeddings ::
  "embedder \<Rightarrow> (pystr \<times> pystr) list \<Rightarrow> pystr list \<Rightarrow> (py_exn + (pystr \<times> vec) list) \<times> pystr list"
where
  "department_embeddings encoder [] calls = (Inr [], calls)"
| "department_embeddings encoder ((dept, desc) # rest) calls =
     (case get_embedding encoder desc calls of
        (Inl e, calls1) \<Rightarrow> (Inl e, calls1)
      | (Inr v, calls1) \<Rightarrow>
          (case department_embeddings encoder rest calls1 of
             (Inl e, calls2) \<Rightarrow> (Inl e, calls2)
           | (Inr vs, calls2) \<Rightarrow> (Inr ((dept, v) # vs), calls2)))"

text \<open>
  The comprehension
  \<^verbatim>\<open>{dept: cosine_similarity(text_embedding, dept_embedding)[0][0] for ...}\<close>.
\<close>

fun similarities :: "scorer \<Rightarrow> vec \<Rightarrow> (pystr \<times> vec) list \<Rightarrow> py_exn + (pystr \<times> real) list" where
  "similarities cosine_similarity text_embedding [] = Inr []"
| "similarities cosine_similarity text_embedding ((dept, dept_embedding) # rest) =
     (case cosine_similarity text_embedding dept_embedding of
        Inl e \<Rightarrow> Inl e
      | Inr s \<Rightarrow>
          (case similarities cosine_similarity text_embedding rest of
             Inl e \<Rightarrow> Inl e
           | Inr ss \<Rightarrow> Inr ((dept, s) # ss)))"

text \<open>
  Python's \<^verbatim>\<open>max(iterable, key=...)\<close>: the running maximum is replaced only by an item
  whose key is strictly greater, so the first of several maximal items is returned. On an
  empty iterable it raises \<^verbatim>\<open>ValueError\<close>.
\<close>

fun max_from :: "('a \<Rightarrow> real) \<Rightarrow> 'a \<Rightarrow> 'a list \<Rightarrow> 'a" where
  "max_from key m [] = m"
| "max_from key m (x # xs) = max_from key (if key m < key x then x else m) xs"

definition py_max :: "('a \<Rightarrow> real) \<Rightarrow> 'a list \<Rightarrow> py_exn + 'a" where
  "py_max key xs =
     (case xs of
        [] \<Rightarrow> Inl (Exn ValueError (ascii ''max() arg is an empty sequence''))
      | x # rest \<Rightarrow> Inr (max_from key x rest))"

text \<open>
  The handler \<^verbatim>\<open>except Exception as e\<close> of \<^verbatim>\<open>classify\<close>: status 500 and the detail
  \<^verbatim>\<open>f"<prefix>{str(e)}"\<close>.
\<close>

definition classify_failure :: "py_exn \<Rightarrow> raised" where
  "classify_failure e = HTTPException 500 (classify_error_prefix @ str e)"

text \<open>
  \<^verbatim>\<open>HuggingFaceClassifier.classify(text, departments)\<close>. The result is \<open>Inr None\<close> for
  the source's \<^verbatim>\<open>return None\<close>, \<open>Inr (Some d)\<close> for a returned department name and
  \<open>Inl\<close> for a raised exception. The logging calls are left out. The argument
  \<open>departments\<close> is kept although the body never reads it.
\<close>

text \<open>
  The literal \<^verbatim>\<open>0.3\<close> of the threshold test is a Python float: the IEEE-754 double
  nearest to three tenths, \<open>5404319552844595 / 2^54\<close> (and \<open>2^54 = 18014398509481984\<close>),
  a little below three tenths. The test compares the maximum score with this value.
\<close>

definition literal_0_3 :: real where
  "literal_0_3 = 5404319552844595 / 18014398509481984"

definition classify ::
  "embedder \<Rightarrow> scorer \<Rightarrow> pystr \<Rightarrow> pystr list \<Rightarrow> pystr list \<Rightarrow> (raised + pystr option) \<times> pystr list"
where
  "classify encoder cosine_similarity text departments calls =
     (case get_embedding encoder text calls of
        (Inl e, calls1) \<Rightarrow> (Inl (classify_failure e), calls1)
      | (Inr text_embedding, calls1) \<Rightarrow>
          (case department_embeddings encoder department_descriptions calls1 of
             (Inl e, calls2) \<Rightarrow> (Inl (classify_failure e), calls2)
           | (Inr dept_embeddings, calls2) \<Rightarrow>
               (case similarities cosine_similarity text_embedding dept_embeddings of
                  Inl e \<Rightarrow> (Inl (classify_failure e), calls2)
                | Inr sims \<Rightarrow>
                    (case py_max (\<lambda>s. s) (map snd sims) of
                       Inl e \<Rightarrow> (Inl (classify_failure e), calls2)
                     | Inr max_similarity \<Rightarrow>
                         if max_similarity < literal_0_3 then (Inr None, calls2)
                         else (case py_max snd sims of
                                 Inl e \<Rightarrow> (Inl (classify_failure e), calls2)
                               | Inr best \<Rightarrow> (Inr (Some (fst best)), calls2))))))"

section \<open>The remote-LLM backends\<close>

text \<open>
  The HTTP exchange is \<^verbatim>\<open>requests.post(url, headers=..., json=data)\<close>. A JSON value is
  the Python object \<^verbatim>\<open>response.json()\<close> returns; a dictionary is the list of its items.
\<close>

datatype json =
  JNull | JBool bool | JInt int | JFloat real | JStr pystr
  | JList "json list" | JDict "(pystr \<times> json) list"

record request =
  url :: pystr
  headers :: "(pystr \<times> pystr) list"
  json_body :: json

text \<open>
  A response carries its status line, the URL it answers for, and what \<^verbatim>\<open>.json()\<close>
  does on its body: the decoded value or the exception the decoder raises.
\<close>

record response =
  status_code :: nat
  reason :: pystr
  response_url :: pystr
  json_result :: "py_exn + json"

text \<open>
  The transport is the parameter of the model: it answers a request with a response or
  raises. The state threaded through a backend is the list of requests sent so far.
\<close>

type_synonym transport = "request \<Rightarrow> py_exn + response"

definition and_then :: "py_exn + 'a \<Rightarrow> ('a \<Rightarrow> py_exn + 'b) \<Rightarrow> py_exn + 'b" where
  "and_then r f = (case r of Inl e \<Rightarrow> Inl e | Inr x \<Rightarrow> f x)"

text \<open>The decimal digits of a number, as \<^verbatim>\<open>str(n)\<close> and an f-string print it.\<close>

function decimal :: "nat \<Rightarrow> pystr" where
  "decimal n = (if n < 10 then [48 + n] else decimal (n div 10) @ [48 + n mod 10])"
  by pat_completeness auto
termination
  by (relation "measure (\<lambda>n. n)") auto

declare decimal.simps [simp del]

text \<open>
  \<^verbatim>\<open>Response.raise_for_status()\<close> of \<^verbatim>\<open>requests\<close>: the message stays empty unless
  the status is from 400 to 599, and an \<^verbatim>\<open>HTTPError\<close> (a \<^verbatim>\<open>RequestException\<close>) with the
  message is raised when it is not empty.
\<close>

definition http_error_msg :: "response \<Rightarrow> pystr" where
  "http_error_msg r =
     (if 400 \<le> status_code r \<and> status_code r < 500
      then decimal (status_code r) @ ascii '' Client Error: '' @ reason r
             @ ascii '' for url: '' @ response_url r
      else if 500 \<le> status_code r \<and> status_code r < 600
      then decimal (status_code r) @ ascii '' Server Error: '' @ reason r
             @ ascii '' for url: '' @ response_url r
      else [])"

definition raise_for_status :: "response \<Rightarrow> py_exn + unit" where
  "raise_for_status r =
     (if http_error_msg r \<noteq> [] then Inl (Exn RequestException (http_error_msg r))
      else Inr ())"

text \<open>
  Subscripting and \<^verbatim>\<open>.strip()\<close> on a decoded JSON value, with the exception Python
  raises where the value has the wrong shape (message texts as in CPython 3.11); \<open>quoted\<close>
  puts a text between apostrophes, as \<^verbatim>\<open>repr\<close> does for a plain string.
\<close>

fun type_name :: "json \<Rightarrow> pystr" where
  "type_name JNull = ascii ''NoneType''"
| "type_name (JBool b) = ascii ''bool''"
| "type_name (JInt i) = ascii ''int''"
| "type_name (JFloat x) = ascii ''float''"
| "type_name (JStr s) = ascii ''str''"
| "type_name (JList xs) = ascii ''list''"
| "type_name (JDict kvs) = ascii ''dict''"

definition quoted :: "pystr \<Rightarrow> pystr" where
  "quoted s = [39] @ s @ [39]"

definition not_subscriptable :: "json \<Rightarrow> py_exn" where
  "not_subscriptable v =
     Exn TypeError (quoted (type_name v) @ ascii '' object is not subscriptable'')"

fun getitem_key :: "json \<Rightarrow> pystr \<Rightarrow> py_exn + json" where
  "getitem_key (JDict kvs) k =
     (case map_of kvs k of
        None \<Rightarrow> Inl (Exn KeyError (quoted k))
      | Some v \<Rightarrow> Inr v)"
| "getitem_key (JList xs) k =
     Inl (Exn TypeError (ascii ''list indices must be integers or slices, not str''))"
| "getitem_key (JStr s) k =
     Inl (Exn TypeError (ascii ''string indices must be integers, not '' @ quoted (ascii ''str'')))"
| "getitem_key v k = Inl (not_subscriptable v)"

fun getitem_0 :: "json \<Rightarrow> py_exn + json" where
  "getitem_0 (JList []) = Inl (Exn IndexError (ascii ''list index out of range''))"
| "getitem_0 (JList (x # xs)) = Inr x"
| "getitem_0 (JStr []) = Inl (Exn IndexError (ascii ''string index out of range''))"
| "getitem_0 (JStr (c # s)) = Inr (JStr [c])"
| "getitem_0 (JDict kvs) = Inl (Exn KeyError (ascii ''0''))"
| "getitem_0 v = Inl (not_subscriptable v)"

text \<open>The code points \<^verbatim>\<open>str.strip()\<close> removes: those for which \<^verbatim>\<open>str.isspace\<close> holds.\<close>

definition isspace :: "nat \<Rightarrow> bool" where
  "isspace c \<longleftrightarrow>
     (9 \<le> c \<and> c \<le> 13) \<or> (28 \<le> c \<and> c \<le> 32) \<or> c = 133 \<or> c = 160 \<or> c = 5760
     \<or> (8192 \<le> c \<and> c \<le> 8202) \<or> c = 8232 \<or> c = 8233 \<or> c = 8239 \<or> c = 8287
     \<or> c = 12288"

definition strip :: "pystr \<Rightarrow> pystr" where
  "strip s = rev (dropWhile isspace (rev (dropWhile isspace s)))"

fun strip_method :: "json \<Rightarrow> py_exn + pystr" where
  "strip_method (JStr s) = Inr (strip s)"
| "strip_method v =
     Inl (Exn AttributeError
            (quoted (type_name v) @ ascii '' object has no attribute ''
               @ quoted (ascii ''strip'')))"

text \<open>\<^verbatim>\<open>', '.join(departments)\<close> and the prompt, the same f-string in the three backends.\<close>

fun join :: "pystr \<Rightarrow> pystr list \<Rightarrow> pystr" where
  "join sep [] = []"
| "join sep [x] = x"
| "join sep (x # y # ys) = x @ sep @ join sep (y # ys)"

text \<open>
  The constant pieces of the prompt f-string (before the joined department names, before
  the text, and after it), the system message of DeepSeek and the one Qwen and YandexGPT
  share, the prefixes of the error details (Oshibka pri obrashchenii k DeepSeek API,
  Oshibka pri obrabotke otveta ot DeepSeek, Oshibka Qwen, Oshibka YandexGPT, each with a
  colon and a space) and the prefix of the factory's error message (Nepodderzhivaemaya
  model', unsupported model, with a colon and a space).
\<close>

definition prompt_head :: pystr where
  "prompt_head =
     [10, 32, 32, 32, 32, 32, 32, 32, 32, 1055, 1088, 1086, 1072, 1085, 1072, 1083, 1080, 1079,
      1080, 1088, 1091, 1081, 32, 1089, 1083, 1077, 1076, 1091, 1102, 1097, 1077, 1077, 32, 1086,
      1073, 1088, 1072, 1097, 1077, 1085, 1080, 1077, 32, 1075, 1088, 1072, 1078, 1076, 1072,
      1085, 1080, 1085, 1072, 32, 1080, 32, 1086, 1087, 1088, 1077, 1076, 1077, 1083, 1080, 44,
      32, 1074, 32, 1082, 1072, 1082, 1086, 1081, 32, 1076, 1077, 1087, 1072, 1088, 1090, 1072,
      1084, 1077, 1085, 1090, 32, 1077, 1075, 1086, 32, 1085, 1091, 1078, 1085, 1086, 32, 1085,
      1072, 1087, 1088, 1072, 1074, 1080, 1090, 1100, 46, 10, 32, 32, 32, 32, 32, 32, 32, 32,
      1044, 1086, 1089, 1090, 1091, 1087, 1085, 1099, 1077, 32, 1076, 1077, 1087, 1072, 1088,
      1090, 1072, 1084, 1077, 1085, 1090, 1099, 58, 32]"

definition prompt_mid :: pystr where
  "prompt_mid =
     [10, 32, 32, 32, 32, 32, 32, 32, 32, 10, 32, 32, 32, 32, 32, 32, 32, 32, 1054, 1073, 1088,
      1072, 1097, 1077, 1085, 1080, 1077, 58, 32]"

definition prompt_tail :: pystr where
  "prompt_tail =
     [10, 32, 32, 32, 32, 32, 32, 32, 32, 10, 32, 32, 32, 32, 32, 32, 32, 32, 1054, 1090, 1074,
      1077, 1090, 1100, 32, 1090, 1086, 1083, 1100, 1082, 1086, 32, 1085, 1072, 1079, 1074, 1072,
      1085, 1080, 1077, 1084, 32, 1076, 1077, 1087, 1072, 1088, 1090, 1072, 1084, 1077, 1085,
      1090, 1072, 32, 1080, 1079, 32, 1089, 1087, 1080, 1089, 1082, 1072, 46, 10, 32, 32, 32, 32,
      32, 32, 32, 32]"

definition deepseek_system_content :: pystr where
  "deepseek_system_content =
     [1058, 1099, 32, 45, 32, 1087, 1086, 1084, 1086, 1097, 1085, 1080, 1082, 32, 1087, 1086, 32,
      1082, 1083, 1072, 1089, 1089, 1080, 1092, 1080, 1082, 1072, 1094, 1080, 1080, 32, 1086,
      1073, 1088, 1072, 1097, 1077, 1085, 1080, 1081, 32, 1075, 1088, 1072, 1078, 1076, 1072,
      1085, 46, 32, 1058, 1074, 1086, 1103, 32, 1079, 1072, 1076, 1072, 1095, 1072, 32, 45, 32,
      1086, 1087, 1088, 1077, 1076, 1077, 1083, 1080, 1090, 1100, 44, 32, 1074, 32, 1082, 1072,
      1082, 1086, 1081, 32, 1076, 1077, 1087, 1072, 1088, 1090, 1072, 1084, 1077, 1085, 1090, 32,
      1085, 1091, 1078, 1085, 1086, 32, 1085, 1072, 1087, 1088, 1072, 1074, 1080, 1090, 1100, 32,
      1086, 1073, 1088, 1072, 1097, 1077, 1085, 1080, 1077, 46, 32, 1054, 1090, 1074, 1077, 1095,
      1072, 1081, 32, 1090, 1086, 1083, 1100, 1082, 1086, 32, 1085, 1072, 1079, 1074, 1072, 1085,
      1080, 1077, 1084, 32, 1076, 1077, 1087, 1072, 1088, 1090, 1072, 1084, 1077, 1085, 1090,
      1072, 32, 1080, 1079, 32, 1087, 1088, 1077, 1076, 1083, 1086, 1078, 1077, 1085, 1085, 1086,
      1075, 1086, 32, 1089, 1087, 1080, 1089, 1082, 1072, 46]"

definition assistant_system_content :: pystr where
  "assistant_system_content =
     [1058, 1099, 32, 45, 32, 1087, 1086, 1084, 1086, 1097, 1085, 1080, 1082, 32, 1087, 1086, 32,
      1082, 1083, 1072, 1089, 1089, 1080, 1092, 1080, 1082, 1072, 1094, 1080, 1080, 32, 1086,
      1073, 1088, 1072, 1097, 1077, 1085, 1080, 1081, 32, 1075, 1088, 1072, 1078, 1076, 1072,
      1085, 46]"

definition deepseek_request_error_prefix :: pystr where
  "deepseek_request_error_prefix =
     [1054, 1096, 1080, 1073, 1082, 1072, 32, 1087, 1088, 1080, 32, 1086, 1073, 1088, 1072, 1097,
      1077, 1085, 1080, 1080, 32, 1082, 32, 68, 101, 101, 112, 83, 101, 101, 107, 32, 65, 80, 73,
      58, 32]"

definition deepseek_response_error_prefix :: pystr where
  "deepseek_response_error_prefix =
     [1054, 1096, 1080, 1073, 1082, 1072, 32, 1087, 1088, 1080, 32, 1086, 1073, 1088, 1072, 1073,
      1086, 1090, 1082, 1077, 32, 1086, 1090, 1074, 1077, 1090, 1072, 32, 1086, 1090, 32, 68,
      101, 101, 112, 83, 101, 101, 107, 58, 32]"

definition qwen_error_prefix :: pystr where
  "qwen_error_prefix =
     [1054, 1096, 1080, 1073, 1082, 1072, 32, 81, 119, 101, 110, 58, 32]"

definition yandexgpt_error_prefix :: pystr where
  "yandexgpt_error_prefix =
     [1054, 1096, 1080, 1073, 1082, 1072, 32, 89, 97, 110, 100, 101, 120, 71, 80, 84, 58, 32]"

definition unsupported_model_prefix :: pystr where
  "unsupported_model_prefix =
     [1053, 1077, 1087, 1086, 1076, 1076, 1077, 1088, 1078, 1080, 1074, 1072, 1077, 1084, 1072,
      1103, 32, 1084, 1086, 1076, 1077, 1083, 1100, 58, 32]"

definition prompt :: "pystr \<Rightarrow> pystr list \<Rightarrow> pystr" where
  "prompt text departments =
     prompt_head @ join (ascii '', '') departments @ prompt_mid @ text @ prompt_tail"

subsection \<open>The backend objects\<close>

text \<open>
  \<^verbatim>\<open>DeepSeekClassifier\<close> stores \<^verbatim>\<open>api_key\<close>, \<^verbatim>\<open>url\<close> and \<^verbatim>\<open>headers\<close>; \<^verbatim>\<open>QwenModel\<close> and
  \<^verbatim>\<open>YandexGPTModel\<close> inherit the constructor of \<^verbatim>\<open>BaseModel\<close>, which stores \<^verbatim>\<open>api_key\<close>.
\<close>

datatype model =
  DeepSeekClassifier pystr pystr "(pystr \<times> pystr) list"
  | QwenModel pystr
  | YandexGPTModel pystr

definition new_DeepSeekClassifier :: "pystr \<Rightarrow> model" where
  "new_DeepSeekClassifier api_key =
     DeepSeekClassifier api_key (ascii ''https://api.deepseek.com/v1/chat/completions'')
       [(ascii ''Content-Type'', ascii ''application/json''),
        (ascii ''Authorization'', ascii ''Bearer '' @ api_key)]"

subsection \<open>DeepSeek\<close>

definition deepseek_data :: "pystr \<Rightarrow> pystr list \<Rightarrow> json" where
  "deepseek_data text departments =
     JDict
       [(ascii ''model'', JStr (ascii ''deepseek-chat'')),
        (ascii ''messages'',
           JList
             [JDict [(ascii ''role'', JStr (ascii ''system'')),
                     (ascii ''content'', JStr deepseek_system_content)],
              JDict [(ascii ''role'', JStr (ascii ''user'')),
                     (ascii ''content'', JStr (prompt text departments))]]),
        (ascii ''temperature'', JFloat 0.1),
        (ascii ''max_tokens'', JInt 100)]"

definition deepseek_request :: "pystr \<Rightarrow> (pystr \<times> pystr) list \<Rightarrow> pystr \<Rightarrow> pystr list \<Rightarrow> request" where
  "deepseek_request u hs text departments =
     \<lparr>url = u, headers = hs, json_body = deepseek_data text departments\<rparr>"

text \<open>\<^verbatim>\<open>result["choices"][0]["message"]["content"].strip()\<close>\<close>

definition deepseek_answer :: "json \<Rightarrow> py_exn + pystr" where
  "deepseek_answer result =
     and_then (getitem_key result (ascii ''choices'')) (\<lambda>choices.
     and_then (getitem_0 choices) (\<lambda>choice.
     and_then (getitem_key choice (ascii ''message'')) (\<lambda>message.
     and_then (getitem_key message (ascii ''content'')) strip_method)))"

text \<open>
  The two handlers of \<^verbatim>\<open>DeepSeekClassifier.classify\<close>: \<^verbatim>\<open>RequestException\<close>, then
  \<^verbatim>\<open>(KeyError, IndexError)\<close>. An exception of any other class leaves the method as it is.
\<close>

definition deepseek_handler :: "py_exn \<Rightarrow> raised" where
  "deepseek_handler e =
     (if exn_class_of e = RequestException
      then HTTPException 500 (deepseek_request_error_prefix @ str e)
      else if exn_class_of e = KeyError \<or> exn_class_of e = IndexError
      then HTTPException 500 (deepseek_response_error_prefix @ str e)
      else Uncaught e)"

definition deepseek_classify ::
  "transport \<Rightarrow> pystr \<Rightarrow> (pystr \<times> pystr) list \<Rightarrow> pystr \<Rightarrow> pystr list \<Rightarrow> request list
     \<Rightarrow> (raised + pystr) \<times> request list"
where
  "deepseek_classify post u hs text departments sent =
     (let req = deepseek_request u hs text departments in
      (case and_then (post req) (\<lambda>response.
            and_then (raise_for_status response) (\<lambda>_.
            and_then (json_result response) deepseek_answer)) of
         Inl e \<Rightarrow> Inl (deepseek_handler e)
       | Inr department \<Rightarrow> Inr department,
       sent @ [req]))"

subsection \<open>Qwen\<close>

definition qwen_data :: "pystr \<Rightarrow> pystr list \<Rightarrow> json" where
  "qwen_data text departments =
     JDict
       [(ascii ''model'', JStr (ascii ''qwen-turbo'')),
        (ascii ''input'',
           JDict
             [(ascii ''messages'',
                 JList
                   [JDict [(ascii ''role'', JStr (ascii ''system'')),
                           (ascii ''content'', JStr assistant_system_content)],
                    JDict [(ascii ''role'', JStr (ascii ''user'')),
                           (ascii ''content'', JStr (prompt text departments))]])]),
        (ascii ''parameters'',
           JDict [(ascii ''temperature'', JFloat 0.1), (ascii ''max_tokens'', JInt 100)])]"

definition qwen_request :: "pystr \<Rightarrow> pystr \<Rightarrow> pystr list \<Rightarrow> request" where
  "qwen_request api_key text departments =
     \<lparr>url = ascii ''https://dashscope.aliyuncs.com/api/v1/services/aigc/text-generation/generation'',
      headers = [(ascii ''Content-Type'', ascii ''application/json''),
                 (ascii ''Authorization'', ascii ''Bearer '' @ api_key)],
      json_body = qwen_data text departments\<rparr>"

text \<open>\<^verbatim>\<open>result["output"]["text"].strip()\<close>\<close>

definition qwen_answer :: "json \<Rightarrow> py_exn + pystr" where
  "qwen_answer result =
     and_then (getitem_key result (ascii ''output'')) (\<lambda>output.
     and_then (getitem_key output (ascii ''text'')) strip_method)"

text \<open>The handler \<^verbatim>\<open>except Exception as e\<close> of \<^verbatim>\<open>QwenModel.classify\<close>.\<close>

definition qwen_handler :: "py_exn \<Rightarrow> raised" where
  "qwen_handler e = HTTPException 500 (qwen_error_prefix @ str e)"

definition qwen_classify ::
  "transport \<Rightarrow> pystr \<Rightarrow> pystr \<Rightarrow> pystr list \<Rightarrow> request list \<Rightarrow> (raised + pystr) \<times> request list"
where
  "qwen_classify post api_key text departments sent =
     (let req = qwen_request api_key text departments in
      (case and_then (post req) (\<lambda>response.
            and_then (raise_for_status response) (\<lambda>_.
            and_then (json_result response) qwen_answer)) of
         Inl e \<Rightarrow> Inl (qwen_handler e)
       | Inr department \<Rightarrow> Inr department,
       sent @ [req]))"

subsection \<open>YandexGPT\<close>

definition yandexgpt_data :: "pystr \<Rightarrow> pystr list \<Rightarrow> json" where
  "yandexgpt_data text departments =
     JDict
       [(ascii ''modelUri'', JStr (ascii ''gpt://b1gqs0e2qom8vq2a5q6s/yandexgpt-lite'')),
        (ascii ''completionOptions'',
           JDict [(ascii ''stream'', JBool False),
                  (ascii ''temperature'', JFloat 0.1),
                  (ascii ''maxTokens'', JStr (ascii ''2000''))]),
        (ascii ''messages'',
           JList
             [JDict [(ascii ''role'', JStr (ascii ''system'')),
                     (ascii ''text'', JStr assistant_system_content)],
              JDict [(ascii ''role'', JStr (ascii ''user'')),
                     (ascii ''text'', JStr (prompt text departments))]])]"

definition yandexgpt_request :: "pystr \<Rightarrow> pystr \<Rightarrow> pystr list \<Rightarrow> request" where
  "yandexgpt_request api_key text departments =
     \<lparr>url = ascii ''https://llm.api.cloud.yandex.net/foundationModels/v1/completion'',
      headers = [(ascii ''Content-Type'', ascii ''application/json''),
                 (ascii ''Authorization'', ascii ''Api-Key '' @ api_key)],
      json_body = yandexgpt_data text departments\<rparr>"

text \<open>\<^verbatim>\<open>result["result"]["alternatives"][0]["message"]["text"].strip()\<close>\<close>

definition yandexgpt_answer :: "json \<Rightarrow> py_exn + pystr" where
  "yandexgpt_answer result =
     and_then (getitem_key result (ascii ''result'')) (\<lambda>res.
     and_then (getitem_key res (ascii ''alternatives'')) (\<lambda>alternatives.
     and_then (getitem_0 alternatives) (\<lambda>alternative.
     and_then (getitem_key alternative (ascii ''message'')) (\<lambda>message.
     and_then (getitem_key message (ascii ''text'')) strip_method))))"

text \<open>The handler \<^verbatim>\<open>except Exception as e\<close> of \<^verbatim>\<open>YandexGPTModel.classify\<close>.\<close>

definition yandexgpt_handler :: "py_exn \<Rightarrow> raised" where
  "yandexgpt_handler e = HTTPException 500 (yandexgpt_error_prefix @ str e)"

definition yandexgpt_classify ::
  "transport \<Rightarrow> pystr \<Rightarrow> pystr \<Rightarrow> pystr list \<Rightarrow> request list \<Rightarrow> (raised + pystr) \<times> request list"
where
  "yandexgpt_classify post api_key text departments sent =
     (let req = yandexgpt_request api_key text departments in
      (case and_then (post req) (\<lambda>response.
            and_then (raise_for_status response) (\<lambda>_.
            and_then (json_result response) yandexgpt_answer)) of
         Inl e \<Rightarrow> Inl (yandexgpt_handler e)
       | Inr department \<Rightarrow> Inr department,
       sent @ [req]))"

subsection \<open>Method dispatch and the factory\<close>

text \<open>\<^verbatim>\<open>model.classify(text, departments)\<close> on an object the factory returned.\<close>

fun model_classify ::
  "transport \<Rightarrow> model \<Rightarrow> pystr \<Rightarrow> pystr list \<Rightarrow> request list \<Rightarrow> (raised + pystr) \<times> request list"
where
  "model_classify post (DeepSeekClassifier api_key u hs) text departments sent =
     deepseek_classify post u hs text departments sent"
| "model_classify post (QwenModel api_key) text departments sent =
     qwen_classify post api_key text departments sent"
| "model_classify post (YandexGPTModel api_key) text departments sent =
     yandexgpt_classify post api_key text departments sent"

text \<open>
  \<^verbatim>\<open>get_model(model_name, api_key)\<close>: the dictionary \<^verbatim>\<open>models\<close> of constructors, the
  membership test, and the call of the constructor found.
\<close>

definition models :: "(pystr \<times> (pystr \<Rightarrow> model)) list" where
  "models =
     [(ascii ''deepseek'', new_DeepSeekClassifier),
      (ascii ''qwen'', QwenModel),
      (ascii ''yandexgpt'', YandexGPTModel)]"

definition get_model :: "pystr \<Rightarrow> pystr \<Rightarrow> py_exn + model" where
  "get_model model_name api_key =
     (case map_of models model_name of
        None \<Rightarrow> Inl (Exn ValueError (unsupported_model_prefix @ model_name))
      | Some constructor \<Rightarrow> Inr (constructor api_key))"

section \<open>The similarity scorer\<close>

text \<open>
  Modelled from the spec: the similarity scorer. The source calls \<^verbatim>\<open>cosine_similarity\<close>
  of \<^verbatim>\<open>sklearn\<close>, whose code is not part of the repository; the specification gives it as
  \<^verbatim>\<open>dot(a,b) / (norm(a) * norm(b))\<close>, with the value 0 when either vector has zero norm
  and a failure on vectors of different dimension (the \<^verbatim>\<open>ValueError\<close> of \<^verbatim>\<open>sklearn\<close>, its
  message without the two shapes). The arithmetic is that of the real numbers; the
  rounding of floating-point arithmetic is not modelled.
\<close>

fun dot :: "vec \<Rightarrow> vec \<Rightarrow> real" where
  "dot (x # xs) (y # ys) = x * y + dot xs ys"
| "dot _ _ = 0"

definition l2_norm :: "vec \<Rightarrow> real" where
  "l2_norm a = sqrt (dot a a)"

definition score :: "vec \<Rightarrow> vec \<Rightarrow> real" where
  "score a b =
     (if l2_norm a = 0 \<or> l2_norm b = 0 then 0 else dot a b / (l2_norm a * l2_norm b))"

definition cosine_scorer :: scorer where
  "cosine_scorer a b =
     (if length a \<noteq> length b
      then Inl (Exn ValueError (ascii ''Incompatible dimension for X and Y matrices''))
      else Inr (score a b))"

section \<open>Test doubles\<close>

text \<open>
  Encoders that stand in for the pretrained model in concrete runs: \<open>unit_encoder\<close>
  gives every text the vector \<open>[1]\<close> and \<open>null_encoder\<close> the zero vector \<open>[0]\<close>;
  \<open>probe_encoder\<close> gives the empty text and the description of the second department
  the vector \<open>[1, 0, 0]\<close>, the text \<^verbatim>\<open>?\<close> the vector \<open>[0, 0, 1]\<close> and every other
  text \<open>[0, 1, 0]\<close>; \<open>failing_encoder\<close> raises on every text. The scores by department
  name that they lead to are \<open>unit_sim\<close> for \<open>unit_encoder\<close>, \<open>probe_sim\<close> for
  \<open>probe_encoder\<close> on the empty text, and \<open>zero_sim\<close> for \<open>probe_encoder\<close> on the
  text \<^verbatim>\<open>?\<close> and for \<open>null_encoder\<close>.
\<close>

definition unit_encoder :: embedder where
  "unit_encoder t = Inr [1]"

definition probe_encoder :: embedder where
  "probe_encoder t =
     (if t = [] \<or> t = desc_culture then Inr [1, 0, 0]
      else if t = ascii ''?'' then Inr [0, 0, 1]
      else Inr [0, 1, 0])"

definition null_encoder :: embedder where
  "null_encoder t = Inr [0]"

definition unit_sim :: "pystr \<Rightarrow> real" where
  "unit_sim d = 1"

definition probe_sim :: "pystr \<Rightarrow> real" where
  "probe_sim d = (if d = dept_culture then 1 else 0)"

definition zero_sim :: "pystr \<Rightarrow> real" where
  "zero_sim d = 0"

text \<open>
  A scorer that gives every pair of vectors the value of the literal \<^verbatim>\<open>0.3\<close>, and the
  scores it leads to.
\<close>

definition boundary_scorer :: scorer where
  "boundary_scorer a b = Inr literal_0_3"

definition boundary_sim :: "pystr \<Rightarrow> real" where
  "boundary_sim d = literal_0_3"

definition failing_encoder :: embedder where
  "failing_encoder t = Inl (Exn OtherException (ascii ''out of memory''))"

text \<open>
  Transports for concrete runs: one that cannot connect, one that answers 503, one that
  answers 300 with a body of the shape DeepSeek's API uses, and one that answers 200
  with a body that holds the answer \<^verbatim>\<open>" Treasury "\<close> in the place each of the three
  backends reads.
\<close>

definition refusing_transport :: transport where
  "refusing_transport req = Inl (Exn RequestException (ascii ''Connection refused''))"

definition unavailable_transport :: transport where
  "unavailable_transport req =
     Inr \<lparr>status_code = 503, reason = ascii ''Service Unavailable'', response_url = url req,
          json_result = Inl (Exn RequestException (ascii ''Expecting value''))\<rparr>"

definition multiple_choices_response :: response where
  "multiple_choices_response =
     \<lparr>status_code = 300, reason = ascii ''Multiple Choices'', response_url = [],
      json_result =
        Inr (JDict [(ascii ''choices'',
               JList [JDict [(ascii ''message'',
                        JDict [(ascii ''content'', JStr (ascii ''Ministry''))])]])])\<rparr>"

definition multiple_choices_transport :: transport where
  "multiple_choices_transport req = Inr multiple_choices_response"




section \<open>Properties of the building blocks\<close>

subsection \<open>Python's \<^verbatim>\<open>max\<close>\<close>

lemma Max_key_cons:
  "Max (key ` set (a # b # xs)) = max (key a) (Max (key ` set (b # xs)))"
  using Max_insert [of "key ` set (b # xs)" "key a"] by simp

lemma Max_key_swap: "Max (key ` set (a # b # xs)) = Max (key ` set (b # a # xs))"
  by (simp add: insert_commute)

lemma Max_key_head: "(key a :: real) \<le> Max (key ` set (a # xs))"
  by simp

lemma Max_key_step:
  fixes key :: "'a \<Rightarrow> real"
  shows "Max (key ` set (m # x # xs)) =
     (if key m < key x then Max (key ` set (x # xs)) else Max (key ` set (m # xs)))"
proof (cases "key m < key x")
  case True
  have "key x \<le> Max (key ` set (x # xs))" by (rule Max_key_head)
  with True have "max (key m) (Max (key ` set (x # xs))) = Max (key ` set (x # xs))"
    by linarith
  with True show ?thesis by (simp only: Max_key_cons if_True)
next
  case False
  have "key m \<le> Max (key ` set (m # xs))" by (rule Max_key_head)
  with False have "max (key x) (Max (key ` set (m # xs))) = Max (key ` set (m # xs))"
    by linarith
  then have "Max (key ` set (x # m # xs)) = Max (key ` set (m # xs))"
    by (simp only: Max_key_cons)
  with False show ?thesis by (simp only: Max_key_swap [of key m x xs] if_False)
qed

lemma max_from_key: "key (max_from key m xs) = Max (key ` set (m # xs))"
proof (induction xs arbitrary: m)
  case Nil
  show ?case by simp
next
  case (Cons x xs)
  show ?case
    by (simp only: max_from.simps Cons.IH Max_key_step [of key m x xs]) simp
qed

lemma max_from_first:
  "find (\<lambda>x. key x = Max (key ` set (m # xs))) (m # xs) = Some (max_from key m xs)"
proof (induction xs arbitrary: m)
  case Nil
  show ?case by simp
next
  case (Cons x xs)
  define M where "M = Max (key ` set (m # x # xs))"
  have km: "key m \<le> M" and kx: "key x \<le> M"
    unfolding M_def by (rule Max_ge; simp)+
  show ?case
  proof (cases "key m < key x")
    case True
    have M: "M = Max (key ` set (x # xs))"
      using True by (simp only: M_def Max_key_step [of key m x xs] if_True)
    have "key m \<noteq> M" using kx True by linarith
    then have "find (\<lambda>y. key y = M) (m # x # xs) = find (\<lambda>y. key y = M) (x # xs)"
      by simp
    also have "\<dots> = Some (max_from key x xs)"
      unfolding M by (rule Cons.IH)
    finally show ?thesis using True unfolding M_def by simp
  next
    case False
    have M: "M = Max (key ` set (m # xs))"
      using False by (simp only: M_def Max_key_step [of key m x xs] if_False)
    have IH: "find (\<lambda>y. key y = M) (m # xs) = Some (max_from key m xs)"
      unfolding M by (rule Cons.IH)
    have "find (\<lambda>y. key y = M) (m # x # xs) = find (\<lambda>y. key y = M) (m # xs)"
    proof (cases "key m = M")
      case True
      then show ?thesis by simp
    next
      case neq: False
      have "key m < M" using neq km by linarith
      then have "key x \<noteq> M" using False by linarith
      with neq show ?thesis by simp
    qed
    with IH show ?thesis using False unfolding M_def by simp
  qed
qed

lemma py_max_nonempty:
  "xs \<noteq> [] \<Longrightarrow> \<exists>r. py_max key xs = Inr r \<and> key r = Max (key ` set xs)
      \<and> find (\<lambda>x. key x = Max (key ` set xs)) xs = Some r"
  by (cases xs) (simp_all add: py_max_def max_from_key max_from_first del: find.simps set_simps)

subsection \<open>The two comprehensions\<close>

lemma department_embeddings_ok:
  "\<forall>p\<in>set cat. encoder (snd p) = Inr (ev (snd p)) \<Longrightarrow>
   department_embeddings encoder cat calls =
     (Inr (map (\<lambda>p. (fst p, ev (snd p))) cat), calls @ map snd cat)"
  by (induction cat arbitrary: calls) (auto simp: get_embedding_def)

lemma similarities_ok:
  "\<forall>p\<in>set evs. cosine_similarity tv (snd p) = Inr (f p) \<Longrightarrow>
   similarities cosine_similarity tv evs = Inr (map (\<lambda>p. (fst p, f p)) evs)"
  by (induction evs) auto

lemma find_map_fst:
  "find (\<lambda>q. snd q = M) (map (\<lambda>p. (fst p, sim (fst p))) cat) =
   map_option (\<lambda>d. (d, sim d)) (find (\<lambda>d. sim d = M) (map fst cat))"
  by (induction cat) auto

subsection \<open>The result of \<^verbatim>\<open>classify\<close> when every library call succeeds\<close>

lemma literal_0_3_bounds: "3 / 10 - 1 / 2 ^ 55 < literal_0_3" "literal_0_3 < 3 / 10"
  by (simp_all add: literal_0_3_def)

lemma literal_0_3_tests: "(0::real) < literal_0_3" "\<not> (1::real) < literal_0_3"
  by (simp_all add: literal_0_3_def)

lemma department_descriptions_nonempty: "department_descriptions \<noteq> []"
  by (simp add: department_descriptions_def)

lemma classify_ok:
  assumes text_ok: "encoder text = Inr tv"
    and depts_ok: "\<forall>p\<in>set department_descriptions.
           \<exists>v. encoder (snd p) = Inr v \<and> cosine_similarity tv v = Inr (sim (fst p))"
  shows "classify encoder cosine_similarity text departments calls =
     (if Max (sim ` set (map fst department_descriptions)) < literal_0_3 then Inr None
      else Inr (find (\<lambda>d. sim d = Max (sim ` set (map fst department_descriptions)))
                  (map fst department_descriptions)),
      calls @ text # map snd department_descriptions)"
proof -
  define dd where "dd = department_descriptions"
  define ev where "ev desc = projr (encoder desc)" for desc
  define sims where "sims = map (\<lambda>p. (fst p, sim (fst p))) dd"
  define M where "M = Max (sim ` set (map fst dd))"
  have dd: "dd \<noteq> []" by (simp add: dd_def department_descriptions_nonempty)
  have enc: "\<forall>p\<in>set dd. encoder (snd p) = Inr (ev (snd p))"
    using depts_ok by (auto simp: ev_def dd_def)
  have emb: "department_embeddings encoder dd (calls @ [text]) =
      (Inr (map (\<lambda>p. (fst p, ev (snd p))) dd), (calls @ [text]) @ map snd dd)"
    by (rule department_embeddings_ok [OF enc])
  have sc: "\<forall>q\<in>set (map (\<lambda>p. (fst p, ev (snd p))) dd).
      cosine_similarity tv (snd q) = Inr (sim (fst q))"
    using depts_ok by (auto simp: ev_def dd_def)
  have sim_eq: "similarities cosine_similarity tv (map (\<lambda>p. (fst p, ev (snd p))) dd) = Inr sims"
    using similarities_ok [of "map (\<lambda>p. (fst p, ev (snd p))) dd" cosine_similarity tv
        "\<lambda>q. sim (fst q)", OF sc]
    by (simp add: sims_def comp_def)
  have vals: "snd ` set sims = sim ` set (map fst dd)"
    by (simp add: sims_def image_image)
  have sims: "sims \<noteq> []" using dd by (simp add: sims_def)
  obtain r where r: "py_max (\<lambda>s. s) (map snd sims) = Inr r" and rM: "r = M"
    using py_max_nonempty [of "map snd sims" "\<lambda>s. s"] sims vals by (auto simp: M_def)
  obtain best where best: "py_max snd sims = Inr best"
    and first: "find (\<lambda>q. snd q = M) sims = Some best"
    using py_max_nonempty [of sims snd] sims vals by (auto simp: M_def)
  have "find (\<lambda>d. sim d = M) (map fst dd) = Some (fst best)"
    using first unfolding sims_def find_map_fst by auto
  then show ?thesis
    using text_ok emb sim_eq r rM best
    unfolding classify_def get_embedding_def dd_def [symmetric] M_def [symmetric]
    by simp
qed

subsection \<open>Cosine similarity over the reals\<close>

lemma dot_self_nonneg: "0 \<le> dot a a"
  by (induction a) simp_all

lemma dot_self_zero_iff: "dot a a = 0 \<longleftrightarrow> (\<forall>x\<in>set a. x = 0)"
proof (induction a)
  case Nil
  show ?case by simp
next
  case (Cons x xs)
  have "x * x + dot xs xs = 0 \<longleftrightarrow> x * x = 0 \<and> dot xs xs = 0"
    using dot_self_nonneg [of xs] by (auto simp: add_nonneg_eq_0_iff)
  with Cons show ?case by simp
qed

lemma l2_norm_zero_iff: "l2_norm a = 0 \<longleftrightarrow> (\<forall>x\<in>set a. x = 0)"
  by (simp add: l2_norm_def dot_self_zero_iff)

lemma two_term_bound:
  fixes x y d A B :: real
  assumes "d\<^sup>2 \<le> A * B" "0 \<le> A" "0 \<le> B"
  shows "2 * x * y * d \<le> x\<^sup>2 * B + y\<^sup>2 * A"
proof (rule power2_le_imp_le)
  show "0 \<le> x\<^sup>2 * B + y\<^sup>2 * A" using assms by simp
  have "(2 * x * y * d)\<^sup>2 = 4 * (x\<^sup>2 * y\<^sup>2) * d\<^sup>2"
    by (simp add: power_mult_distrib)
  also have "\<dots> \<le> 4 * (x\<^sup>2 * y\<^sup>2) * (A * B)"
    using assms(1) by (intro mult_left_mono) simp_all
  also have "\<dots> \<le> (x\<^sup>2 * B + y\<^sup>2 * A)\<^sup>2"
  proof -
    have "0 \<le> (x\<^sup>2 * B - y\<^sup>2 * A)\<^sup>2" by simp
    moreover have "(x\<^sup>2 * B - y\<^sup>2 * A)\<^sup>2 =
        (x\<^sup>2 * B)\<^sup>2 + (y\<^sup>2 * A)\<^sup>2 - 2 * (x\<^sup>2 * B) * (y\<^sup>2 * A)"
      by (rule power2_diff)
    moreover have "(x\<^sup>2 * B + y\<^sup>2 * A)\<^sup>2 =
        (x\<^sup>2 * B)\<^sup>2 + (y\<^sup>2 * A)\<^sup>2 + 2 * (x\<^sup>2 * B) * (y\<^sup>2 * A)"
      by (rule power2_sum)
    moreover have "4 * (x\<^sup>2 * y\<^sup>2) * (A * B) = 2 * (2 * (x\<^sup>2 * B) * (y\<^sup>2 * A))"
      by simp
    ultimately show ?thesis by linarith
  qed
  finally show "(2 * x * y * d)\<^sup>2 \<le> (x\<^sup>2 * B + y\<^sup>2 * A)\<^sup>2" .
qed

lemma dot_cauchy_schwarz:
  "length a = length b \<Longrightarrow> (dot a b)\<^sup>2 \<le> dot a a * dot b b"
proof (induction a b rule: list_induct2)
  case Nil
  show ?case by simp
next
  case (Cons x xs y ys)
  have cross: "2 * x * y * dot xs ys \<le> x\<^sup>2 * dot ys ys + y\<^sup>2 * dot xs xs"
    by (rule two_term_bound [OF Cons.IH dot_self_nonneg dot_self_nonneg])
  have lhs: "(x * y + dot xs ys)\<^sup>2 = x\<^sup>2 * y\<^sup>2 + 2 * x * y * dot xs ys + (dot xs ys)\<^sup>2"
    by (simp only: power2_sum) (simp only: power_mult_distrib mult.assoc)
  have rhs: "(x * x + dot xs xs) * (y * y + dot ys ys) =
      x\<^sup>2 * y\<^sup>2 + (x\<^sup>2 * dot ys ys + y\<^sup>2 * dot xs xs) + dot xs xs * dot ys ys"
    by (simp only: power2_eq_square distrib_left distrib_right) (simp only: ac_simps)
  show ?case
    unfolding dot.simps lhs rhs using cross Cons.IH by linarith
qed

lemma l2_norm_nonneg: "0 \<le> l2_norm a"
  by (simp add: l2_norm_def dot_self_nonneg)

lemma l2_norm_square: "(l2_norm a)\<^sup>2 = dot a a"
  unfolding l2_norm_def by (rule real_sqrt_pow2) (rule dot_self_nonneg)

lemma dot_le_norms: "length a = length b \<Longrightarrow> dot a b \<le> l2_norm a * l2_norm b"
proof (rule power2_le_imp_le)
  assume "length a = length b"
  then have "(dot a b)\<^sup>2 \<le> dot a a * dot b b" by (rule dot_cauchy_schwarz)
  also have "\<dots> = (l2_norm a * l2_norm b)\<^sup>2"
    by (simp only: power_mult_distrib l2_norm_square)
  finally show "(dot a b)\<^sup>2 \<le> (l2_norm a * l2_norm b)\<^sup>2" .
  show "0 \<le> l2_norm a * l2_norm b"
    by (rule mult_nonneg_nonneg) (rule l2_norm_nonneg)+
qed

lemma score_le_one: "length a = length b \<Longrightarrow> score a b \<le> 1"
proof -
  assume len: "length a = length b"
  show ?thesis
  proof (cases "l2_norm a = 0 \<or> l2_norm b = 0")
    case True
    then show ?thesis by (simp only: score_def if_True)
  next
    case False
    have "0 < l2_norm a" "0 < l2_norm b"
      using False l2_norm_nonneg [of a] l2_norm_nonneg [of b] by linarith+
    then have pos: "0 < l2_norm a * l2_norm b" by (rule mult_pos_pos)
    have "dot a b / (l2_norm a * l2_norm b) \<le> 1"
      using dot_le_norms [OF len] by (simp only: divide_le_eq_1_pos [OF pos])
    with False show ?thesis by (simp only: score_def if_False)
  qed
qed

subsection \<open>What \<^verbatim>\<open>classify\<close> returns, raises and calls in general\<close>







lemma department_embeddings_fail:
  "\<exists>p\<in>set cat. \<exists>e. encoder (snd p) = Inl e \<Longrightarrow>
   \<exists>e c. department_embeddings encoder cat calls = (Inl e, c)
      \<and> (\<exists>p\<in>set cat. encoder (snd p) = Inl e)"
proof (induction cat arbitrary: calls)
  case Nil
  then show ?case by simp
next
  case (Cons a cat)
  obtain dept desc where a: "a = (dept, desc)" by (cases a)
  show ?case
  proof (cases "encoder desc")
    case (Inl e)
    then show ?thesis by (auto simp: a get_embedding_def)
  next
    case (Inr v)
    with Cons.prems have "\<exists>p\<in>set cat. \<exists>e. encoder (snd p) = Inl e"
      by (auto simp: a)
    from Cons.IH [OF this, of "calls @ [desc]"] obtain e c where
      "department_embeddings encoder cat (calls @ [desc]) = (Inl e, c)"
      "\<exists>p\<in>set cat. encoder (snd p) = Inl e" by blast
    with Inr show ?thesis by (auto simp: a get_embedding_def)
  qed
qed

lemma classify_encoder_failure:
  assumes "(\<exists>e. encoder text = Inl e) \<or> (\<exists>p\<in>set department_descriptions. \<exists>e. encoder (snd p) = Inl e)"
  shows "\<exists>e. fst (classify encoder cosine_similarity text departments calls) = Inl (classify_failure e)
     \<and> (encoder text = Inl e \<or> (\<exists>p\<in>set department_descriptions. encoder (snd p) = Inl e))"
proof (cases "encoder text")
  case (Inl e)
  then show ?thesis by (auto simp: classify_def get_embedding_def)
next
  case (Inr tv)
  with assms have "\<exists>p\<in>set department_descriptions. \<exists>e. encoder (snd p) = Inl e" by auto
  from department_embeddings_fail [OF this, of "calls @ [text]"] obtain e c where
    "department_embeddings encoder department_descriptions (calls @ [text]) = (Inl e, c)"
    "\<exists>p\<in>set department_descriptions. encoder (snd p) = Inl e" by blast
  with Inr show ?thesis by (auto simp: classify_def get_embedding_def)
qed

lemma classify_calls:
  assumes "encoder text = Inr tv"
    and "\<forall>p\<in>set department_descriptions. \<exists>v. encoder (snd p) = Inr v"
  shows "snd (classify encoder cosine_similarity text departments calls) =
     calls @ text # map snd department_descriptions"
proof -
  define ev where "ev desc = projr (encoder desc)" for desc
  have "\<forall>p\<in>set department_descriptions. encoder (snd p) = Inr (ev (snd p))"
    using assms(2) by (auto simp: ev_def)
  from department_embeddings_ok [OF this, of "calls @ [text]"] assms(1) show ?thesis
    by (simp add: classify_def get_embedding_def split: sum.splits)
qed

lemma find_first:
  "d \<in> set xs \<Longrightarrow> P d \<Longrightarrow> \<forall>x\<in>set (takeWhile (\<lambda>x. x \<noteq> d) xs). \<not> P x \<Longrightarrow> find P xs = Some d"
  by (induction xs) (auto split: if_splits)

lemma department_names_distinct: "distinct (map fst department_descriptions)"
  by (simp add: department_descriptions_def dept_transport_def dept_culture_def
      dept_health_def dept_education_def dept_ecology_def dept_sport_def)

subsection \<open>The HTTP status check\<close>

lemma decimal_nonempty: "decimal n \<noteq> []"
  by (subst decimal.simps) simp

lemma http_error_msg_nonempty:
  "400 \<le> status_code r \<Longrightarrow> status_code r < 600 \<Longrightarrow> http_error_msg r \<noteq> []"
  by (simp add: http_error_msg_def decimal_nonempty)

lemma raise_for_status_rejects:
  "400 \<le> status_code r \<Longrightarrow> status_code r < 600 \<Longrightarrow>
   raise_for_status r = Inl (Exn RequestException (http_error_msg r))"
  by (simp add: raise_for_status_def http_error_msg_nonempty)


subsection \<open>The remote-LLM backends on a failure and on an answer\<close>

lemma deepseek_transport_failure:
  assumes "post (deepseek_request u hs text departments) = Inl e"
    and "exn_class_of e = RequestException"
  shows "deepseek_classify post u hs text departments sent =
     (Inl (HTTPException 500 (deepseek_request_error_prefix @ str e)),
      sent @ [deepseek_request u hs text departments])"
  using assms by (simp add: deepseek_classify_def and_then_def deepseek_handler_def)

lemma deepseek_status_failure:
  assumes "post (deepseek_request u hs text departments) = Inr r"
    and "400 \<le> status_code r" and "status_code r < 600"
  shows "deepseek_classify post u hs text departments sent =
     (Inl (HTTPException 500 (deepseek_request_error_prefix @ http_error_msg r)),
      sent @ [deepseek_request u hs text departments])"
  using assms(1) raise_for_status_rejects [OF assms(2,3)]
  by (simp add: deepseek_classify_def and_then_def deepseek_handler_def)

lemma qwen_transport_failure:
  assumes "post (qwen_request api_key text departments) = Inl e"
  shows "qwen_classify post api_key text departments sent =
     (Inl (HTTPException 500 (qwen_error_prefix @ str e)),
      sent @ [qwen_request api_key text departments])"
  using assms by (simp add: qwen_classify_def and_then_def qwen_handler_def)

lemma qwen_status_failure:
  assumes "post (qwen_request api_key text departments) = Inr r"
    and "400 \<le> status_code r" and "status_code r < 600"
  shows "qwen_classify post api_key text departments sent =
     (Inl (HTTPException 500 (qwen_error_prefix @ http_error_msg r)),
      sent @ [qwen_request api_key text departments])"
  using assms(1) raise_for_status_rejects [OF assms(2,3)]
  by (simp add: qwen_classify_def and_then_def qwen_handler_def)

lemma yandexgpt_transport_failure:
  assumes "post (yandexgpt_request api_key text departments) = Inl e"
  shows "yandexgpt_classify post api_key text departments sent =
     (Inl (HTTPException 500 (yandexgpt_error_prefix @ str e)),
      sent @ [yandexgpt_request api_key text departments])"
  using assms by (simp add: yandexgpt_classify_def and_then_def yandexgpt_handler_def)

lemma yandexgpt_status_failure:
  assumes "post (yandexgpt_request api_key text departments) = Inr r"
    and "400 \<le> status_code r" and "status_code r < 600"
  shows "yandexgpt_classify post api_key text departments sent =
     (Inl (HTTPException 500 (yandexgpt_error_prefix @ http_error_msg r)),
      sent @ [yandexgpt_request api_key text departments])"
  using assms(1) raise_for_status_rejects [OF assms(2,3)]
  by (simp add: yandexgpt_classify_def and_then_def yandexgpt_handler_def)









subsection \<open>The factory\<close>

lemma get_model_cases:
  "get_model model_name api_key =
     (if model_name = ascii ''deepseek'' then Inr (new_DeepSeekClassifier api_key)
      else if model_name = ascii ''qwen'' then Inr (QwenModel api_key)
      else if model_name = ascii ''yandexgpt'' then Inr (YandexGPTModel api_key)
      else Inl (Exn ValueError (unsupported_model_prefix @ model_name)))"
  by (simp add: get_model_def models_def)

subsection \<open>Facts about the test doubles\<close>

lemma unit_scores:
  "\<forall>p\<in>set department_descriptions.
     \<exists>v. unit_encoder (snd p) = Inr v \<and> cosine_scorer [1] v = Inr (unit_sim (fst p))"
  by (simp add: unit_encoder_def cosine_scorer_def score_def l2_norm_def unit_sim_def)

lemma unit_sim_max: "Max (unit_sim ` set (map fst department_descriptions)) = 1"
  by (simp add: department_descriptions_def unit_sim_def)

lemma culture_not_first: "dept_transport \<noteq> dept_culture"
  by (simp add: dept_transport_def dept_culture_def)

lemma desc_culture_differs:
  "desc_transport \<noteq> desc_culture" "desc_health \<noteq> desc_culture"
  "desc_education \<noteq> desc_culture" "desc_ecology \<noteq> desc_culture"
  "desc_sport \<noteq> desc_culture"
  by (simp_all add: desc_transport_def desc_culture_def desc_health_def desc_education_def
      desc_ecology_def desc_sport_def)

lemma dept_culture_differs:
  "dept_transport \<noteq> dept_culture" "dept_health \<noteq> dept_culture"
  "dept_education \<noteq> dept_culture" "dept_ecology \<noteq> dept_culture"
  "dept_sport \<noteq> dept_culture"
  by (simp_all add: dept_transport_def dept_culture_def dept_health_def dept_education_def
      dept_ecology_def dept_sport_def)

lemma desc_nonempty:
  "desc_transport \<noteq> []" "desc_culture \<noteq> []" "desc_health \<noteq> []"
  "desc_education \<noteq> []" "desc_ecology \<noteq> []" "desc_sport \<noteq> []"
  by (simp_all add: desc_transport_def desc_culture_def desc_health_def desc_education_def
      desc_ecology_def desc_sport_def)

lemma desc_not_question:
  "desc_transport \<noteq> ascii ''?''" "desc_culture \<noteq> ascii ''?''" "desc_health \<noteq> ascii ''?''"
  "desc_education \<noteq> ascii ''?''" "desc_ecology \<noteq> ascii ''?''" "desc_sport \<noteq> ascii ''?''"
  by (simp_all add: desc_transport_def desc_culture_def desc_health_def desc_education_def
      desc_ecology_def desc_sport_def ascii_def)

lemmas probe_facts = desc_culture_differs dept_culture_differs desc_nonempty desc_not_question

lemma probe_scores:
  "\<forall>p\<in>set department_descriptions.
     \<exists>v. probe_encoder (snd p) = Inr v \<and> cosine_scorer [1, 0, 0] v = Inr (probe_sim (fst p))"
  by (simp add: department_descriptions_def probe_encoder_def probe_facts cosine_scorer_def
      score_def l2_norm_def probe_sim_def)

lemma probe_zero_scores:
  "\<forall>p\<in>set department_descriptions.
     \<exists>v. probe_encoder (snd p) = Inr v \<and> cosine_scorer [0, 0, 1] v = Inr (zero_sim (fst p))"
  by (simp add: department_descriptions_def probe_encoder_def probe_facts cosine_scorer_def
      score_def l2_norm_def zero_sim_def)

lemma probe_sim_max: "Max (probe_sim ` set (map fst department_descriptions)) = 1"
  by (simp add: department_descriptions_def probe_sim_def probe_facts)

lemma zero_sim_max: "Max (zero_sim ` set (map fst department_descriptions)) = 0"
  by (simp add: department_descriptions_def zero_sim_def)

lemma probe_question: "probe_encoder (ascii ''?'') = Inr [0, 0, 1]"
  using desc_not_question(2) by (simp add: probe_encoder_def ascii_def)

lemma probe_empty: "probe_encoder [] = Inr [1, 0, 0]"
  by (simp add: probe_encoder_def)

lemma null_scores:
  "\<forall>p\<in>set department_descriptions.
     \<exists>v. null_encoder (snd p) = Inr v \<and> cosine_scorer [0] v = Inr (zero_sim (fst p))"
  by (simp add: null_encoder_def cosine_scorer_def score_def l2_norm_def zero_sim_def)

lemma boundary_scores:
  "\<forall>p\<in>set department_descriptions.
     \<exists>v. unit_encoder (snd p) = Inr v \<and> boundary_scorer [1] v = Inr (boundary_sim (fst p))"
  by (simp add: unit_encoder_def boundary_scorer_def boundary_sim_def)

lemma boundary_sim_max: "Max (boundary_sim ` set (map fst department_descriptions)) = literal_0_3"
  by (simp add: department_descriptions_def boundary_sim_def)

section \<open>The claims\<close>

text \<open>
  In the theorems below \<open>sim d\<close> is the similarity score of department \<open>d\<close>: the
  hypothesis on \<open>sim\<close> says that the encoder returns a vector for the text and for every
  description and that the scorer returns \<open>sim d\<close> for the text's vector and the vector of
  the description of \<open>d\<close>.
\<close>

text \<open>
  Claim C1. Whenever the embeddings and the scores are computed, \<^verbatim>\<open>classify\<close> returns
  \<^verbatim>\<open>None\<close> (Undecided) exactly when the maximum of the six scores is strictly below the
  threshold, the float \<^verbatim>\<open>0.3\<close> of the source, and otherwise returns a department of the
  catalog whose score is that maximum. This holds for every text and every list passed
  as \<open>departments\<close>.
\<close>

theorem classify_threshold:
  assumes "encoder text = Inr tv"
    and "\<forall>p\<in>set department_descriptions.
           \<exists>v. encoder (snd p) = Inr v \<and> cosine_similarity tv v = Inr (sim (fst p))"
  shows "(fst (classify encoder cosine_similarity text departments calls) = Inr None
            \<longleftrightarrow> Max (sim ` set (map fst department_descriptions)) < literal_0_3)
       \<and> (\<not> Max (sim ` set (map fst department_descriptions)) < literal_0_3 \<longrightarrow>
            (\<exists>d\<in>set (map fst department_descriptions).
               fst (classify encoder cosine_similarity text departments calls) = Inr (Some d)
               \<and> sim d = Max (sim ` set (map fst department_descriptions))))"
proof -
  define M where "M = Max (sim ` set (map fst department_descriptions))"
  have res: "fst (classify encoder cosine_similarity text departments calls) =
      (if M < literal_0_3 then Inr None
       else Inr (find (\<lambda>d. sim d = M) (map fst department_descriptions)))"
    unfolding M_def
    by (simp add: classify_ok [where sim = sim and cosine_similarity = cosine_similarity, OF assms])
  have "M \<in> sim ` set (map fst department_descriptions)"
    unfolding M_def using department_descriptions_nonempty by (intro Max_in) simp_all
  then obtain d where d: "find (\<lambda>d. sim d = M) (map fst department_descriptions) = Some d"
    by (cases "find (\<lambda>d. sim d = M) (map fst department_descriptions)")
       (auto simp: find_None_iff)
  then have "d \<in> set (map fst department_descriptions)" "sim d = M"
    by (auto simp: find_Some_iff)
  with res d show ?thesis unfolding M_def [symmetric] by auto
qed

text \<open>
  Three runs. With the probe encoder the text \<^verbatim>\<open>?\<close> scores 0 against every department
  and is undecided, and the empty text scores 1 against the second department and is
  decided. With a scorer that returns exactly the value of the literal \<^verbatim>\<open>0.3\<close> the
  maximum is not below the threshold and the text is decided.
\<close>

theorem classify_threshold_witness:
  "fst (classify probe_encoder cosine_scorer (ascii ''?'') DEPARTMENTS []) = Inr None
   \<and> fst (classify probe_encoder cosine_scorer [] DEPARTMENTS []) \<noteq> Inr None
   \<and> fst (classify unit_encoder boundary_scorer [] DEPARTMENTS []) \<noteq> Inr None"
proof (intro conjI)
  show "fst (classify probe_encoder cosine_scorer (ascii ''?'') DEPARTMENTS []) = Inr None"
    using classify_threshold [where sim = zero_sim and cosine_similarity = cosine_scorer
        and departments = DEPARTMENTS and calls = "[]", OF probe_question probe_zero_scores,
        unfolded zero_sim_max]
    by (simp add: literal_0_3_tests)
  show "fst (classify probe_encoder cosine_scorer [] DEPARTMENTS []) \<noteq> Inr None"
    using classify_threshold [where sim = probe_sim and cosine_similarity = cosine_scorer
        and departments = DEPARTMENTS and calls = "[]", OF probe_empty probe_scores,
        unfolded probe_sim_max]
    by (simp add: literal_0_3_tests)
  have enc: "unit_encoder [] = Inr [1]" by (simp add: unit_encoder_def)
  show "fst (classify unit_encoder boundary_scorer [] DEPARTMENTS []) \<noteq> Inr None"
    using classify_threshold [where sim = boundary_sim and cosine_similarity = boundary_scorer
        and departments = DEPARTMENTS and calls = "[]", OF enc boundary_scores,
        unfolded boundary_sim_max]
    by simp
qed




text \<open>
  Claim C3, amended. When two or more departments share the maximum score, the
  department selected is the first of them in the order of the catalog, and every call
  with the same text returns it, whatever was embedded before. The department is
  returned only when the maximum is not below the threshold: a tie below it gives
  \<^verbatim>\<open>None\<close>, as the counterexample shows (all six scores are 0).
\<close>

theorem classify_tie_first:
  assumes "encoder text = Inr tv"
    and "\<forall>p\<in>set department_descriptions.
           \<exists>v. encoder (snd p) = Inr v \<and> cosine_similarity tv v = Inr (sim (fst p))"
    and "\<not> Max (sim ` set (map fst department_descriptions)) < literal_0_3"
  shows "\<exists>i<length department_descriptions.
           (\<forall>calls. fst (classify encoder cosine_similarity text departments calls)
                      = Inr (Some (map fst department_descriptions ! i)))
           \<and> sim (map fst department_descriptions ! i)
               = Max (sim ` set (map fst department_descriptions))
           \<and> (\<forall>j<i. sim (map fst department_descriptions ! j)
                      < Max (sim ` set (map fst department_descriptions)))"
proof -
  define names where "names = map fst department_descriptions"
  define M where "M = Max (sim ` set names)"
  have res: "fst (classify encoder cosine_similarity text departments calls) =
      Inr (find (\<lambda>d. sim d = M) names)" for calls
    using assms(3) unfolding M_def names_def
    by (simp add:
        classify_ok [where sim = sim and cosine_similarity = cosine_similarity, OF assms(1,2)])
  have ne: "names \<noteq> []" by (simp add: names_def department_descriptions_nonempty)
  then have "M \<in> sim ` set names"
    unfolding M_def by (intro Max_in) simp_all
  then obtain d where d: "find (\<lambda>d. sim d = M) names = Some d"
    by (cases "find (\<lambda>d. sim d = M) names") (auto simp: find_None_iff)
  then obtain i where i: "i < length names" "sim (names ! i) = M"
    "d = names ! i" "\<forall>j<i. sim (names ! j) \<noteq> M"
    by (auto simp: find_Some_iff)
  have "sim (names ! j) < M" if "j < i" for j
  proof -
    have "sim (names ! j) \<le> M"
      unfolding M_def using that i(1) by (intro Max_ge) simp_all
    with i(4) that show ?thesis by (simp add: less_le)
  qed
  with i res d have "\<exists>i<length names.
      (\<forall>calls. fst (classify encoder cosine_similarity text departments calls)
                 = Inr (Some (names ! i)))
      \<and> sim (names ! i) = M \<and> (\<forall>j<i. sim (names ! j) < M)"
    by auto
  then show ?thesis unfolding M_def names_def by simp
qed

text \<open>
  With the constant encoder all six scores are 1; the theorem gives the position of the
  department returned, with no position before it.
\<close>

theorem classify_tie_first_witness:
  "\<exists>i<length department_descriptions.
     (\<forall>calls. fst (classify unit_encoder cosine_scorer [] DEPARTMENTS calls)
                = Inr (Some (map fst department_descriptions ! i)))
     \<and> unit_sim (map fst department_descriptions ! i) = 1
     \<and> (\<forall>j<i. unit_sim (map fst department_descriptions ! j) < 1)"
proof -
  have enc: "unit_encoder [] = Inr [1]" by (simp add: unit_encoder_def)
  have above: "\<not> Max (unit_sim ` set (map fst department_descriptions)) < literal_0_3"
    unfolding unit_sim_max by (rule literal_0_3_tests)
  show ?thesis
    using classify_tie_first [where sim = unit_sim and cosine_similarity = cosine_scorer
        and departments = DEPARTMENTS, OF enc unit_scores above]
    unfolding unit_sim_max .
qed

theorem classify_tie_below_threshold_counterexample:
  "cosine_scorer [0, 0, 1] [0, 1, 0] = Inr 0 \<and> cosine_scorer [0, 0, 1] [1, 0, 0] = Inr 0
   \<and> Max (zero_sim ` set (map fst department_descriptions)) = 0
   \<and> fst (classify probe_encoder cosine_scorer (ascii ''?'') DEPARTMENTS []) = Inr None"
proof -
  have undecided:
    "fst (classify probe_encoder cosine_scorer (ascii ''?'') DEPARTMENTS []) = Inr None"
    using classify_ok [where sim = zero_sim and cosine_similarity = cosine_scorer
        and departments = DEPARTMENTS and calls = "[]", OF probe_question probe_zero_scores,
        unfolded zero_sim_max]
    by (simp add: literal_0_3_tests)
  have "cosine_scorer [0, 0, 1] [0, 1, 0] = Inr 0" "cosine_scorer [0, 0, 1] [1, 0, 0] = Inr 0"
    by (simp_all add: cosine_scorer_def score_def l2_norm_def)
  with undecided zero_sim_max show ?thesis by (intro conjI)
qed

text \<open>
  Claim C4, amended. Let the embedding of the text be identical to the embedding \<open>v\<close> of
  the description of department \<open>d\<close>, let every embedding and score be computed, and let
  \<open>s\<close> be the score the scorer gives \<open>v\<close> against itself. Then \<^verbatim>\<open>classify\<close> returns
  \<open>d\<close> provided \<open>s\<close> is not below the threshold, no department has a score above
  \<open>s\<close>, and no department listed before \<open>d\<close> has the score \<open>s\<close>. The scorer is a
  parameter, so this holds for the library's floating-point scores as well as for exact
  ones. Identity of the embeddings alone is not enough: with an encoder that gives every
  text the same vector the first department is returned, and with one that gives every
  text the zero vector no department is returned.
\<close>

theorem identical_embedding_decided:
  assumes "encoder text = Inr v"
    and "(d, desc) \<in> set department_descriptions" and "encoder desc = Inr v"
    and "\<forall>p\<in>set department_descriptions.
           \<exists>w. encoder (snd p) = Inr w \<and> cosine_similarity v w = Inr (sim (fst p))"
    and "cosine_similarity v v = Inr s" and "\<not> s < literal_0_3"
    and "\<forall>p\<in>set department_descriptions. sim (fst p) \<le> s"
    and "\<forall>p\<in>set (takeWhile (\<lambda>p. fst p \<noteq> d) department_descriptions). sim (fst p) \<noteq> s"
  shows "fst (classify encoder cosine_similarity text departments calls) = Inr (Some d)"
proof -
  define names where "names = map fst department_descriptions"
  from assms(2,4) obtain w where "encoder desc = Inr w" "cosine_similarity v w = Inr (sim d)"
    by force
  with assms(3,5) have sim_d: "sim d = s" by simp
  have d_in: "d \<in> set names" using assms(2) by (force simp: names_def)
  have M: "Max (sim ` set names) = s"
  proof (rule Max_eqI)
    show "finite (sim ` set names)" by simp
    show "y \<le> s" if "y \<in> sim ` set names" for y
      using that assms(7) by (auto simp: names_def)
    show "s \<in> sim ` set names" using d_in sim_d by force
  qed
  have before: "\<forall>n\<in>set (takeWhile (\<lambda>n. n \<noteq> d) names). \<not> sim n = s"
    using assms(8) by (auto simp: names_def takeWhile_map comp_def)
  have "find (\<lambda>n. sim n = s) names = Some d"
    using d_in sim_d before by (rule find_first)
  then show ?thesis
    using classify_ok [where sim = sim and cosine_similarity = cosine_similarity
        and departments = departments and calls = calls, OF assms(1,4)] assms(6)
    unfolding names_def [symmetric] M by simp
qed

text \<open>
  The probe encoder gives the empty text the vector of the second department's
  description; with the exact scorer that vector scores 1 against itself, the first
  department scores 0, and the second is returned.
\<close>

theorem identical_embedding_decided_witness:
  "probe_encoder [] = probe_encoder desc_culture
   \<and> cosine_scorer [1, 0, 0] [1, 0, 0] = Inr 1
   \<and> fst (classify probe_encoder cosine_scorer [] DEPARTMENTS []) = Inr (Some dept_culture)"
proof -
  have h2: "(dept_culture, desc_culture) \<in> set department_descriptions"
    by (simp add: department_descriptions_def)
  have h3: "probe_encoder desc_culture = Inr [1, 0, 0]" by (simp add: probe_encoder_def)
  have h5: "cosine_scorer [1, 0, 0] [1, 0, 0] = Inr 1"
    by (simp add: cosine_scorer_def score_def l2_norm_def)
  have h6: "\<not> (1::real) < literal_0_3" by (rule literal_0_3_tests)
  have h7: "\<forall>p\<in>set department_descriptions. probe_sim (fst p) \<le> 1"
    by (simp add: probe_sim_def)
  have h8: "\<forall>p\<in>set (takeWhile (\<lambda>p. fst p \<noteq> dept_culture) department_descriptions).
      probe_sim (fst p) \<noteq> 1"
    by (simp add: department_descriptions_def probe_sim_def probe_facts)
  have "fst (classify probe_encoder cosine_scorer [] DEPARTMENTS []) = Inr (Some dept_culture)"
    using identical_embedding_decided [where encoder = probe_encoder
        and cosine_similarity = cosine_scorer and sim = probe_sim and v = "[1, 0, 0]"
        and s = 1 and departments = DEPARTMENTS and calls = "[]",
        OF probe_empty h2 h3 probe_scores h5 h6 h7 h8] .
  with h5 show ?thesis by (simp add: probe_empty h3)
qed

text \<open>
  Two runs with the exact scorer. With the constant encoder the text and the second
  department's description have the same vector, and the first department is returned.
  With the zero encoder they have the same vector too, all scores are 0, and
  \<^verbatim>\<open>None\<close> is returned.
\<close>

theorem identical_embedding_counterexample:
  "unit_encoder [] = unit_encoder desc_culture
   \<and> fst (classify unit_encoder cosine_scorer [] DEPARTMENTS []) = Inr (Some dept_transport)
   \<and> dept_transport \<noteq> dept_culture
   \<and> null_encoder [] = null_encoder desc_culture
   \<and> fst (classify null_encoder cosine_scorer [] DEPARTMENTS []) = Inr None"
proof -
  have enc: "unit_encoder [] = Inr [1]" by (simp add: unit_encoder_def)
  have "find (\<lambda>d. unit_sim d = 1) (map fst department_descriptions) = Some dept_transport"
    by (simp add: department_descriptions_def unit_sim_def)
  then have first:
    "fst (classify unit_encoder cosine_scorer [] DEPARTMENTS []) = Inr (Some dept_transport)"
    using classify_ok [where sim = unit_sim and cosine_similarity = cosine_scorer
        and departments = DEPARTMENTS and calls = "[]", OF enc unit_scores,
        unfolded unit_sim_max]
    by (simp add: literal_0_3_tests)
  have null: "null_encoder [] = Inr [0]" by (simp add: null_encoder_def)
  have none: "fst (classify null_encoder cosine_scorer [] DEPARTMENTS []) = Inr None"
    using classify_ok [where sim = zero_sim and cosine_similarity = cosine_scorer
        and departments = DEPARTMENTS and calls = "[]", OF null null_scores,
        unfolded zero_sim_max]
    by (simp add: literal_0_3_tests)
  have same: "unit_encoder [] = unit_encoder desc_culture"
    "null_encoder [] = null_encoder desc_culture"
    by (simp_all add: unit_encoder_def null_encoder_def)
  from same(1) first culture_not_first same(2) none show ?thesis by (intro conjI)
qed

text \<open>
  Claim C5, amended. Nothing is cached: whenever the encoder succeeds, a call of
  \<^verbatim>\<open>classify\<close> invokes it once on the text and then once on each of the six
  descriptions, in the order of the catalog, whatever was embedded in earlier calls. So
  every call embeds every description again, and the number of encoder calls for a
  description grows with every call of \<^verbatim>\<open>classify\<close>.
\<close>

theorem classify_embeds_every_description:
  assumes "encoder text = Inr tv"
    and "\<forall>p\<in>set department_descriptions. \<exists>v. encoder (snd p) = Inr v"
  shows "snd (classify encoder cosine_similarity text departments calls) =
           calls @ text # map snd department_descriptions
       \<and> (\<forall>p\<in>set department_descriptions.
            count_list calls (snd p)
              < count_list (snd (classify encoder cosine_similarity text departments calls))
                  (snd p))"
proof -
  have calls_eq: "snd (classify encoder cosine_similarity text departments calls) =
      calls @ text # map snd department_descriptions"
    using assms by (rule classify_calls)
  have "0 < count_list (map snd department_descriptions) (snd p)"
    if "p \<in> set department_descriptions" for p
  proof -
    from that have "snd p \<in> set (map snd department_descriptions)" by simp
    then have "count_list (map snd department_descriptions) (snd p) \<noteq> 0"
      by (simp only: count_list_0_iff not_not)
    then show ?thesis by simp
  qed
  then have "\<forall>p\<in>set department_descriptions.
      count_list calls (snd p)
        < count_list (calls @ text # map snd department_descriptions) (snd p)"
    by (auto simp: less_Suc_eq_le intro: less_imp_le)
  with calls_eq show ?thesis by simp
qed

text \<open>
  One call with the constant encoder from an empty log: seven encoder calls, the text
  first.
\<close>

theorem classify_embeds_every_description_witness:
  "snd (classify unit_encoder cosine_scorer [] DEPARTMENTS []) =
     [[], desc_transport, desc_culture, desc_health, desc_education, desc_ecology, desc_sport]"
proof -
  have enc: "unit_encoder [] = Inr [1]" by (simp add: unit_encoder_def)
  have all: "\<forall>p\<in>set department_descriptions. \<exists>v. unit_encoder (snd p) = Inr v"
    by (simp add: unit_encoder_def)
  show ?thesis
    using classify_embeds_every_description [OF enc all, of cosine_scorer DEPARTMENTS "[]"]
    by (simp add: department_descriptions_def)
qed

text \<open>
  Two calls in a row with an unchanged catalog: the description of the first department
  has been embedded twice.
\<close>

theorem classify_no_cache_counterexample:
  "count_list
     (snd (classify unit_encoder cosine_scorer [] DEPARTMENTS
        (snd (classify unit_encoder cosine_scorer [] DEPARTMENTS []))))
     desc_transport = 2"
proof -
  have enc: "unit_encoder [] = Inr [1]" by (simp add: unit_encoder_def)
  have all: "\<forall>p\<in>set department_descriptions. \<exists>v. unit_encoder (snd p) = Inr v"
    by (simp add: unit_encoder_def)
  have other: "desc_culture \<noteq> desc_transport" "desc_health \<noteq> desc_transport"
    "desc_education \<noteq> desc_transport" "desc_ecology \<noteq> desc_transport"
    "desc_sport \<noteq> desc_transport"
    by (simp_all add: desc_transport_def desc_culture_def desc_health_def desc_education_def
        desc_ecology_def desc_sport_def)
  show ?thesis
    by (simp add: classify_calls [OF enc all] department_descriptions_def other
        desc_nonempty(1) [symmetric])
qed

text \<open>
  Claim C6. When the encoder fails on the text or on a department description, the call
  raises \<^verbatim>\<open>HTTPException\<close> with status 500 and a detail that carries the text of the
  encoder's exception. The result is then different from the \<^verbatim>\<open>None\<close> of an undecided
  classification, so the caller can tell the two apart.
\<close>

theorem embedding_failure_surfaces:
  assumes "(\<exists>e. encoder text = Inl e)
         \<or> (\<exists>p\<in>set department_descriptions. \<exists>e. encoder (snd p) = Inl e)"
  shows "(\<exists>e. fst (classify encoder cosine_similarity text departments calls)
                 = Inl (HTTPException 500 (classify_error_prefix @ str e))
              \<and> (encoder text = Inl e
                  \<or> (\<exists>p\<in>set department_descriptions. encoder (snd p) = Inl e)))
       \<and> fst (classify encoder cosine_similarity text departments calls) \<noteq> Inr None"
proof -
  from classify_encoder_failure [OF assms, of cosine_similarity departments calls]
  obtain e where
    "fst (classify encoder cosine_similarity text departments calls) = Inl (classify_failure e)"
    "encoder text = Inl e \<or> (\<exists>p\<in>set department_descriptions. encoder (snd p) = Inl e)"
    by blast
  then show ?thesis unfolding classify_failure_def by auto
qed

theorem embedding_failure_surfaces_witness:
  "fst (classify failing_encoder cosine_scorer [] DEPARTMENTS []) \<noteq> Inr None"
proof -
  have "(\<exists>e. failing_encoder [] = Inl e)
      \<or> (\<exists>p\<in>set department_descriptions. \<exists>e. failing_encoder (snd p) = Inl e)"
    by (simp add: failing_encoder_def)
  from embedding_failure_surfaces [OF this, of cosine_scorer DEPARTMENTS "[]"]
  show ?thesis by (rule conjunct2)
qed

text \<open>
  Claim C7, amended. Each remote-LLM backend sends exactly one request and, when the
  transport raises or the response has a status from 400 to 599 (for instance 503),
  raises \<^verbatim>\<open>HTTPException\<close> with status 500 and a detail that ends with the upstream
  message; it returns no department and sends no second request. For DeepSeek the
  transport's exception is a \<^verbatim>\<open>RequestException\<close>; Qwen and YandexGPT catch every
  exception. A response with another status outside 200 to 299 is not rejected by
  \<^verbatim>\<open>raise_for_status\<close>: the counterexample is a 300 response whose answer is returned.
\<close>

theorem remote_failure_surfaces:
  "(post (deepseek_request u hs text departments) = Inl e \<and> exn_class_of e = RequestException
      \<longrightarrow> deepseek_classify post u hs text departments sent =
            (Inl (HTTPException 500 (deepseek_request_error_prefix @ str e)),
             sent @ [deepseek_request u hs text departments]))
   \<and> (post (deepseek_request u hs text departments) = Inr r
        \<and> 400 \<le> status_code r \<and> status_code r < 600
      \<longrightarrow> deepseek_classify post u hs text departments sent =
            (Inl (HTTPException 500 (deepseek_request_error_prefix @ http_error_msg r)),
             sent @ [deepseek_request u hs text departments]))
   \<and> (post (qwen_request api_key text departments) = Inl e
      \<longrightarrow> qwen_classify post api_key text departments sent =
            (Inl (HTTPException 500 (qwen_error_prefix @ str e)),
             sent @ [qwen_request api_key text departments]))
   \<and> (post (qwen_request api_key text departments) = Inr r
        \<and> 400 \<le> status_code r \<and> status_code r < 600
      \<longrightarrow> qwen_classify post api_key text departments sent =
            (Inl (HTTPException 500 (qwen_error_prefix @ http_error_msg r)),
             sent @ [qwen_request api_key text departments]))
   \<and> (post (yandexgpt_request api_key text departments) = Inl e
      \<longrightarrow> yandexgpt_classify post api_key text departments sent =
            (Inl (HTTPException 500 (yandexgpt_error_prefix @ str e)),
             sent @ [yandexgpt_request api_key text departments]))
   \<and> (post (yandexgpt_request api_key text departments) = Inr r
        \<and> 400 \<le> status_code r \<and> status_code r < 600
      \<longrightarrow> yandexgpt_classify post api_key text departments sent =
            (Inl (HTTPException 500 (yandexgpt_error_prefix @ http_error_msg r)),
             sent @ [yandexgpt_request api_key text departments]))"
proof (intro conjI impI)
  assume "post (deepseek_request u hs text departments) = Inl e
    \<and> exn_class_of e = RequestException"
  then show "deepseek_classify post u hs text departments sent =
      (Inl (HTTPException 500 (deepseek_request_error_prefix @ str e)),
       sent @ [deepseek_request u hs text departments])"
    by (intro deepseek_transport_failure) simp_all
next
  assume "post (deepseek_request u hs text departments) = Inr r
    \<and> 400 \<le> status_code r \<and> status_code r < 600"
  then show "deepseek_classify post u hs text departments sent =
      (Inl (HTTPException 500 (deepseek_request_error_prefix @ http_error_msg r)),
       sent @ [deepseek_request u hs text departments])"
    by (intro deepseek_status_failure) simp_all
next
  assume "post (qwen_request api_key text departments) = Inl e"
  then show "qwen_classify post api_key text departments sent =
      (Inl (HTTPException 500 (qwen_error_prefix @ str e)),
       sent @ [qwen_request api_key text departments])"
    by (rule qwen_transport_failure)
next
  assume "post (qwen_request api_key text departments) = Inr r
    \<and> 400 \<le> status_code r \<and> status_code r < 600"
  then show "qwen_classify post api_key text departments sent =
      (Inl (HTTPException 500 (qwen_error_prefix @ http_error_msg r)),
       sent @ [qwen_request api_key text departments])"
    by (intro qwen_status_failure) simp_all
next
  assume "post (yandexgpt_request api_key text departments) = Inl e"
  then show "yandexgpt_classify post api_key text departments sent =
      (Inl (HTTPException 500 (yandexgpt_error_prefix @ str e)),
       sent @ [yandexgpt_request api_key text departments])"
    by (rule yandexgpt_transport_failure)
next
  assume "post (yandexgpt_request api_key text departments) = Inr r
    \<and> 400 \<le> status_code r \<and> status_code r < 600"
  then show "yandexgpt_classify post api_key text departments sent =
      (Inl (HTTPException 500 (yandexgpt_error_prefix @ http_error_msg r)),
       sent @ [yandexgpt_request api_key text departments])"
    by (intro yandexgpt_status_failure) simp_all
qed

text \<open>
  A refused connection and a 503 answer, on each backend, from an empty list of sent
  requests: the exception carries the upstream message and one request has been sent.
\<close>

theorem remote_failure_surfaces_witness:
  "deepseek_classify refusing_transport [] [] [] DEPARTMENTS [] =
     (Inl (HTTPException 500 (deepseek_request_error_prefix @ ascii ''Connection refused'')),
      [deepseek_request [] [] [] DEPARTMENTS])
   \<and> qwen_classify refusing_transport [] [] DEPARTMENTS [] =
     (Inl (HTTPException 500 (qwen_error_prefix @ ascii ''Connection refused'')),
      [qwen_request [] [] DEPARTMENTS])
   \<and> yandexgpt_classify refusing_transport [] [] DEPARTMENTS [] =
     (Inl (HTTPException 500 (yandexgpt_error_prefix @ ascii ''Connection refused'')),
      [yandexgpt_request [] [] DEPARTMENTS])
   \<and> deepseek_classify unavailable_transport [] [] [] DEPARTMENTS [] =
     (Inl (HTTPException 500
        (deepseek_request_error_prefix
           @ ascii ''503 Server Error: Service Unavailable for url: '')),
      [deepseek_request [] [] [] DEPARTMENTS])
   \<and> fst (qwen_classify unavailable_transport [] [] DEPARTMENTS []) =
     Inl (HTTPException 500
        (qwen_error_prefix @ ascii ''503 Server Error: Service Unavailable for url: ''
           @ url (qwen_request [] [] DEPARTMENTS)))
   \<and> fst (yandexgpt_classify unavailable_transport [] [] DEPARTMENTS []) =
     Inl (HTTPException 500
        (yandexgpt_error_prefix @ ascii ''503 Server Error: Service Unavailable for url: ''
           @ url (yandexgpt_request [] [] DEPARTMENTS)))"
proof -
  define e where "e = Exn RequestException (ascii ''Connection refused'')"
  define resp where "resp u =
    \<lparr>status_code = 503, reason = ascii ''Service Unavailable'', response_url = u,
     json_result = Inl (Exn RequestException (ascii ''Expecting value''))\<rparr>" for u
  have refused: "refusing_transport req = Inl e" "exn_class_of e = RequestException"
    "str e = ascii ''Connection refused''" for req
    by (simp_all add: refusing_transport_def e_def)
  have answered: "unavailable_transport req = Inr (resp (url req))"
    "400 \<le> status_code (resp u)" "status_code (resp u) < 600" for req u
    by (simp_all add: unavailable_transport_def resp_def)
  have msg: "http_error_msg (resp u) =
      ascii ''503 Server Error: Service Unavailable for url: '' @ u" for u
    by (simp add: http_error_msg_def resp_def decimal.simps ascii_def)
  note down = remote_failure_surfaces [where post = refusing_transport and e = e
      and u = "[]" and hs = "[]" and api_key = "[]" and departments = DEPARTMENTS
      and sent = "[]"]
  note busy = remote_failure_surfaces [where post = unavailable_transport
      and u = "[]" and hs = "[]" and api_key = "[]" and departments = DEPARTMENTS
      and sent = "[]"]
  have d1: "deepseek_classify refusing_transport [] [] [] DEPARTMENTS [] =
      (Inl (HTTPException 500 (deepseek_request_error_prefix @ ascii ''Connection refused'')),
       [deepseek_request [] [] [] DEPARTMENTS])"
    using down refused by simp
  have q1: "qwen_classify refusing_transport [] [] DEPARTMENTS [] =
      (Inl (HTTPException 500 (qwen_error_prefix @ ascii ''Connection refused'')),
       [qwen_request [] [] DEPARTMENTS])"
    using down refused by simp
  have y1: "yandexgpt_classify refusing_transport [] [] DEPARTMENTS [] =
      (Inl (HTTPException 500 (yandexgpt_error_prefix @ ascii ''Connection refused'')),
       [yandexgpt_request [] [] DEPARTMENTS])"
    using down refused by simp
  have d2: "deepseek_classify unavailable_transport [] [] [] DEPARTMENTS [] =
      (Inl (HTTPException 500
         (deepseek_request_error_prefix
            @ ascii ''503 Server Error: Service Unavailable for url: '')),
       [deepseek_request [] [] [] DEPARTMENTS])"
    using busy [where r = "resp (url (deepseek_request [] [] [] DEPARTMENTS))"] answered
    by (simp add: msg deepseek_request_def)
  have q2: "fst (qwen_classify unavailable_transport [] [] DEPARTMENTS []) =
      Inl (HTTPException 500
         (qwen_error_prefix @ ascii ''503 Server Error: Service Unavailable for url: ''
            @ url (qwen_request [] [] DEPARTMENTS)))"
    using busy [where r = "resp (url (qwen_request [] [] DEPARTMENTS))"] answered
    by (simp add: msg)
  have y2: "fst (yandexgpt_classify unavailable_transport [] [] DEPARTMENTS []) =
      Inl (HTTPException 500
         (yandexgpt_error_prefix @ ascii ''503 Server Error: Service Unavailable for url: ''
            @ url (yandexgpt_request [] [] DEPARTMENTS)))"
    using busy [where r = "resp (url (yandexgpt_request [] [] DEPARTMENTS))"] answered
    by (simp add: msg)
  from d1 q1 y1 d2 q2 y2 show ?thesis by (intro conjI)
qed

text \<open>
  A DeepSeek object, as the factory builds it, on a transport that answers 300 with a
  well-formed body: the status check passes and the answer is returned.
\<close>

theorem remote_non_2xx_counterexample:
  "status_code multiple_choices_response = 300
   \<and> raise_for_status multiple_choices_response = Inr ()
   \<and> get_model (ascii ''deepseek'') (ascii ''secret'')
       = Inr (new_DeepSeekClassifier (ascii ''secret''))
   \<and> fst (model_classify multiple_choices_transport (new_DeepSeekClassifier (ascii ''secret''))
            (ascii ''pothole'') DEPARTMENTS [])
       = Inr (ascii ''Ministry'')"
  by (simp add: get_model_cases new_DeepSeekClassifier_def deepseek_classify_def
      multiple_choices_transport_def multiple_choices_response_def raise_for_status_def
      http_error_msg_def deepseek_answer_def and_then_def ascii_def strip_def isspace_def)

text \<open>
  Claim C8, amended. The factory returns a backend object for each of the three names
  \<^verbatim>\<open>deepseek\<close>, \<^verbatim>\<open>qwen\<close> and \<^verbatim>\<open>yandexgpt\<close>, and raises \<^verbatim>\<open>ValueError\<close> with the name in its
  message for every other name. The name \<^verbatim>\<open>embedding\<close> is one of the other names: the
  embedding classifier is not in the factory's dictionary. The factory only constructs
  the object; it sends no request.
\<close>

theorem get_model_kinds:
  "get_model (ascii ''deepseek'') api_key = Inr (new_DeepSeekClassifier api_key)
   \<and> get_model (ascii ''qwen'') api_key = Inr (QwenModel api_key)
   \<and> get_model (ascii ''yandexgpt'') api_key = Inr (YandexGPTModel api_key)
   \<and> (model_name \<notin> {ascii ''deepseek'', ascii ''qwen'', ascii ''yandexgpt''}
        \<longrightarrow> get_model model_name api_key
              = Inl (Exn ValueError (unsupported_model_prefix @ model_name)))"
  by (simp add: get_model_def models_def ascii_def)

theorem get_model_kinds_witness:
  "get_model (ascii ''qwen'') (ascii ''secret'') = Inr (QwenModel (ascii ''secret''))
   \<and> get_model (ascii ''gigachat'') (ascii ''secret'')
       = Inl (Exn ValueError (unsupported_model_prefix @ ascii ''gigachat''))"
proof -
  have "ascii ''gigachat'' \<notin> {ascii ''deepseek'', ascii ''qwen'', ascii ''yandexgpt''}"
    by (simp add: ascii_def)
  with get_model_kinds [of "ascii ''secret''" "ascii ''gigachat''"] show ?thesis by blast
qed

theorem get_model_embedding_counterexample:
  "get_model (ascii ''embedding'') (ascii ''secret'')
     = Inl (Exn ValueError (unsupported_model_prefix @ ascii ''embedding''))"
  by (simp add: get_model_def models_def ascii_def)

text \<open>
  Claim C9. Modelled from the spec: for every vector with a non-zero component the
  similarity scorer gives \<open>score v v = 1\<close>, and the scorer passed to the classifier
  returns it without an error. The arithmetic is exact (real numbers).
\<close>

theorem score_self_similarity:
  assumes "\<exists>x\<in>set v. x \<noteq> 0"
  shows "score v v = 1 \<and> cosine_scorer v v = Inr 1"
proof -
  from assms have nz: "dot v v \<noteq> 0" by (simp add: dot_self_zero_iff)
  then have n: "l2_norm v \<noteq> 0" by (simp add: l2_norm_def)
  have "l2_norm v * l2_norm v = dot v v"
    using l2_norm_square [of v] by (simp add: power2_eq_square)
  with nz n have "score v v = 1" by (simp add: score_def)
  then show ?thesis by (simp add: cosine_scorer_def)
qed

theorem score_self_similarity_witness:
  "score [3, 4] [3, 4] = 1 \<and> cosine_scorer [3, 4] [3, 4] = Inr 1"
proof -
  have "\<exists>x\<in>set [3, 4 :: real]. x \<noteq> 0" by simp
  then show ?thesis by (rule score_self_similarity)
qed

text \<open>
  Claim C10. The result of \<^verbatim>\<open>classify\<close> and the encoder calls it makes are the same for
  any two lists passed as \<open>departments\<close>: the argument is never read, and the catalog of six
  departments is the dictionary literal inside the function.
\<close>

theorem classify_ignores_departments:
  "classify encoder cosine_similarity text departments1 calls =
   classify encoder cosine_similarity text departments2 calls"
  by (simp add: classify_def)

theorem classify_ignores_departments_witness:
  "classify probe_encoder cosine_scorer [] [] [] =
   classify probe_encoder cosine_scorer [] DEPARTMENTS []"
  by (rule classify_ignores_departments)

end
